theory Spec2Isabelle
  imports Main
begin

section \<open>Python strings\<close>

text \<open>
  The few string operations of Python that the extension uses: \<open>sep.join(xs)\<close>,
  \<open>str(n)\<close> of an integer inside an f-string, \<open>s.replace(old, new)\<close>,
  \<open>s.rfind(".")\<close> and the slice \<open>s[:k]\<close>.
\<close>

fun join :: "string \<Rightarrow> string list \<Rightarrow> string" where
  "join sep [] = []"
| "join sep [x] = x"
| "join sep (x # y # xs) = x @ sep @ join sep (y # xs)"

definition digit_char :: "nat \<Rightarrow> char" where
  "digit_char d = ''0123456789'' ! d"

fun str_nat :: "nat \<Rightarrow> string" where
  "str_nat n = (if n < 10 then [digit_char n] else str_nat (n div 10) @ [digit_char (n mod 10)])"

declare str_nat.simps [simp del]

definition str_int :: "int \<Rightarrow> string" where
  "str_int i = (if i < 0 then CHR ''-'' # str_nat (nat (- i)) else str_nat (nat i))"

definition starts_with :: "string \<Rightarrow> string \<Rightarrow> bool" where
  "starts_with s p = (take (length p) s = p)"

text \<open>\<open>s.replace(old, new)\<close> for a non-empty \<open>old\<close>: leftmost occurrences, not overlapping.\<close>

fun replace :: "string \<Rightarrow> string \<Rightarrow> string \<Rightarrow> string" where
  "replace old new [] = []"
| "replace old new (c # cs) =
     (if old \<noteq> [] \<and> starts_with (c # cs) old
      then new @ replace old new (drop (length old) (c # cs))
      else c # replace old new cs)"

declare replace.simps [simp del]

text \<open>\<open>s.rfind(".")\<close>: the index of the last dot, or \<open>-1\<close>.\<close>

fun rfind_dot_from :: "nat \<Rightarrow> string \<Rightarrow> int \<Rightarrow> int" where
  "rfind_dot_from i [] found = found"
| "rfind_dot_from i (c # cs) found =
     rfind_dot_from (Suc i) cs (if c = CHR ''.'' then int i else found)"

definition rfind_dot :: "string \<Rightarrow> int" where
  "rfind_dot s = rfind_dot_from 0 s (- 1)"

text \<open>The slice \<open>s[:k]\<close>; a negative \<open>k\<close> counts from the end.\<close>

definition slice_to :: "string \<Rightarrow> int \<Rightarrow> string" where
  "slice_to s k = (if k < 0 then take (nat (int (length s) + k)) s else take (nat k) s)"

definition newline :: string where
  "newline = [CHR 0x0A]"

section \<open>The document tree\<close>

text \<open>
  A docutils node is a text leaf or an element: a node class, a dictionary of attributes, two
  flags that the extension keeps as plain Python attributes of the object (\<open>gated\<close> and
  \<open>resolved_title\<close>, both \<open>False\<close> on a new node) and the list of children. The module
  \<open>nodes.py\<close> that declares the extension's classes is not among the sources: each class is
  one tag here, and \<open>isinstance\<close> is equality of tags.
\<close>

datatype ntype =
    docutils_document
  | docutils_section
  | docutils_paragraph
  | docutils_container
  | docutils_title
  | docutils_reference
  | docutils_inline
  | docutils_literal
  | docutils_math
  | sphinx_pending_xref
  | spice_file_node
  | spice_file_enumerable_node
  | spice_file_end_node
  | spice_simulation_node
  | spice_simulation_start_node
  | spice_simulation_end_node
  | spice_file_title
  | spice_file_subtitle
  | spice_simulation_title
  | spice_file_latex_number_reference

text \<open>
  The attribute dictionary, one field for each key the extension reads or writes; \<open>None\<close> is
  an absent key. \<open>ids\<close>, \<open>classes\<close> and \<open>names\<close> are present on every element as lists.
\<close>

record attrs =
  a_ids :: "string list"
  a_classes :: "string list"
  a_names :: "string list"
  a_label :: "string option"
  a_docname :: "string option"
  a_title :: "string option"
  a_type :: "string option"
  a_hidden :: "bool option"
  a_serial_number :: "nat option"
  a_target_label :: "string option"
  a_reftype :: "string option"
  a_reftarget :: "string option"
  a_refexplicit :: "bool option"
  a_refid :: "string option"
  a_refuri :: "string option"
  a_internal :: "bool option"
  a_anchorname :: "string option"

definition no_attrs :: attrs where
  "no_attrs = \<lparr>a_ids = [], a_classes = [], a_names = [], a_label = None, a_docname = None,
     a_title = None, a_type = None, a_hidden = None, a_serial_number = None,
     a_target_label = None, a_reftype = None, a_reftarget = None, a_refexplicit = None,
     a_refid = None, a_refuri = None, a_internal = None, a_anchorname = None\<rparr>"

datatype node =
    Text string
  | Element (tag: ntype) (attributes: attrs) (gated: bool) (resolved_title: bool)
      (children: "node list")

fun is_a :: "ntype \<Rightarrow> node \<Rightarrow> bool" where
  "is_a t (Text s) = False"
| "is_a t (Element t' a g r cs) = (t' = t)"

text \<open>\<open>node.children\<close>; a text leaf has none.\<close>

fun kids :: "node \<Rightarrow> node list" where
  "kids (Text s) = []"
| "kids (Element t a g r cs) = cs"

text \<open>Whether a node of a class occurs in a tree, at its root or below.\<close>

fun occurs :: "ntype \<Rightarrow> node \<Rightarrow> bool" where
  "occurs t (Text s) = False"
| "occurs t (Element t' a g r cs) = (t' = t \<or> (\<exists>c \<in> set cs. occurs t c))"

text \<open>A new element of a class, as \<open>cls()\<close> builds it.\<close>

definition new_element :: "ntype \<Rightarrow> node" where
  "new_element t = Element t no_attrs False False []"

text \<open>\<open>node += child\<close> on an element.\<close>

fun append_child :: "node \<Rightarrow> node \<Rightarrow> node" where
  "append_child (Element t a g r cs) c = Element t a g r (cs @ [c])"
| "append_child (Text s) c = Text s"

text \<open>The first index at which a predicate holds, as a \<open>for\<close> loop with \<open>break\<close> finds it.\<close>

fun first_index :: "('a \<Rightarrow> bool) \<Rightarrow> 'a list \<Rightarrow> nat option" where
  "first_index P [] = None"
| "first_index P (x # xs) =
     (if P x then Some 0 else map_option Suc (first_index P xs))"

text \<open>The slice \<open>xs[a:b]\<close> for indices that are not negative.\<close>

definition slice :: "'a list \<Rightarrow> nat \<Rightarrow> nat \<Rightarrow> 'a list" where
  "slice xs a b = take (b - a) (drop a xs)"

section \<open>The gated registry\<close>

text \<open>
  \<open>env.sphinx_spice_file_gated_registry\<close> maps a document name to one record with the keys
  \<open>start\<close>, \<open>end\<close>, \<open>sequence\<close>, \<open>msg\<close> and \<open>type\<close>. The lists \<open>start\<close> and \<open>end\<close> hold
  line numbers, \<open>sequence\<close> the tokens \<open>"S"\<close> and \<open>"E"\<close>.
\<close>

record gated_record =
  g_start :: "int list"
  g_end :: "int list"
  g_sequence :: "string list"
  g_msg :: "string list"
  g_type :: string

type_synonym gated_registry = "string \<rightharpoonup> gated_record"

text \<open>
  The exceptions of the source. \<open>Unmodelled\<close> is not one of them: it is the outcome of the
  model at the one place where the source goes on with a tree that the model does not
  follow.
\<close>

datatype error =
    ExtensionError string
  | IndexError
  | KeyError string
  | AttributeError
  | TypeError
  | ValueError
  | RecursionError
  | Unmodelled

section \<open>The build environment\<close>

text \<open>
  A registry entry holds the keys \<open>type\<close>, \<open>docname\<close> and \<open>node\<close>. The node is a Python
  object: the entry refers to it by its address in the store \<open>objs\<close> of the environment, so
  that two references to one object can be told from a reference to a copy.
\<close>

record entry =
  e_type :: string
  e_docname :: string
  e_node :: nat

text \<open>
  The Sphinx build environment as far as the extension uses it. The two registries are
  attributes that the directives create on first use (\<open>hasattr\<close>): \<open>None\<close> is an absent
  attribute. \<open>serialno\<close> is the counter behind \<open>env.new_serialno()\<close>, \<open>warnings\<close> the calls of
  \<open>logger.warning\<close> so far, each with its message and its location, and
  \<open>hide_spice_simulations\<close> the configuration value of that name.
\<close>

record env =
  docname :: string
  serialno :: nat
  sphinx_spice_file_registry :: "(string \<rightharpoonup> entry) option"
  sphinx_spice_file_gated_registry :: "gated_registry option"
  objs :: "node list"
  warnings :: "(string \<times> string) list"
  hide_spice_simulations :: bool

text \<open>
  What the host supplies to a directive: \<open>env.doc2path\<close>, and the name normalisation behind
  \<open>add_name\<close>.
\<close>

record host =
  doc2path :: "string \<Rightarrow> string"
  fully_normalize_name :: "string \<Rightarrow> string"

definition new_object :: "node \<Rightarrow> env \<Rightarrow> env \<times> nat" where
  "new_object n e = (e\<lparr>objs := objs e @ [n]\<rparr>, length (objs e))"

text \<open>\<open>node.deepcopy()\<close>: a new object with the same value.\<close>

definition deepcopy :: "nat \<Rightarrow> env \<Rightarrow> env \<times> nat" where
  "deepcopy a e = new_object (objs e ! a) e"

definition the_registry :: "env \<Rightarrow> string \<rightharpoonup> entry" where
  "the_registry e = (case sphinx_spice_file_registry e of None \<Rightarrow> Map.empty | Some r \<Rightarrow> r)"

section \<open>The directives\<close>

text \<open>
  One run of a directive: its options, its arguments, its line number, and what the host
  parser returns for its content (\<open>nested_parse\<close>) and for its first argument
  (\<open>inline_text\<close>).
\<close>

record options =
  opt_label :: "string option"
  opt_class :: "string list option"
  opt_nonumber :: bool
  opt_hidden :: bool

record directive =
  d_options :: options
  d_arguments :: "string list"
  d_lineno :: int
  d_content :: "node list"
  d_subtitle_nodes :: "node list"

definition duplicate_label_msg :: "string \<Rightarrow> string \<Rightarrow> string" where
  "duplicate_label_msg label other_path =
     ''duplicate label: '' @ label @ ''; other instance in '' @ other_path"

text \<open>\<open>duplicate_labels\<close> returns its flag and the environment, with the warning if it gave one.\<close>

definition duplicate_labels :: "host \<Rightarrow> string \<Rightarrow> env \<Rightarrow> env \<times> bool" where
  "duplicate_labels h label e =
     (case the_registry e label of
        Some other \<Rightarrow>
          if label \<noteq> [] then
            (let docpath = doc2path h (docname e);
                 path = slice_to docpath (rfind_dot docpath);
                 other_path = doc2path h (e_docname other);
                 msg = duplicate_label_msg label other_path
             in (e\<lparr>warnings := warnings e @ [(msg, path)]\<rparr>, True))
          else (e, False)
      | None \<Rightarrow> (e, False))"

definition init_registry :: "env \<Rightarrow> env" where
  "init_registry e =
     (case sphinx_spice_file_registry e of
        None \<Rightarrow> e\<lparr>sphinx_spice_file_registry := Some Map.empty\<rparr>
      | Some r \<Rightarrow> e)"

definition set_registry :: "string \<Rightarrow> entry \<Rightarrow> env \<Rightarrow> env" where
  "set_registry label x e =
     e\<lparr>sphinx_spice_file_registry := Some ((the_registry e)(label \<mapsto> x))\<rparr>"

definition option_classes :: "options \<Rightarrow> string list" where
  "option_classes opts = (case opt_class opts of None \<Rightarrow> [] | Some cs \<Rightarrow> cs)"

text \<open>
  The label of a directive: the option \<open>label\<close> if it is given and not empty, or else
  \<open>f"{docname}-{kind}-{serial_number}"\<close>.
\<close>

definition directive_label :: "string \<Rightarrow> directive \<Rightarrow> env \<Rightarrow> nat \<Rightarrow> string" where
  "directive_label kind d e serial_number =
     (let label0 = (case opt_label (d_options d) of None \<Rightarrow> [] | Some l \<Rightarrow> l)
      in if label0 \<noteq> [] then label0
         else docname e @ ''-'' @ kind @ ''-'' @ str_nat serial_number)"

text \<open>
  The node that \<open>spice_fileDirective.run\<close> constructs, for the class attribute \<open>name\<close> of the
  directive that runs it, the current document, the serial number and the label.
\<close>

definition spice_file_title_node :: "directive \<Rightarrow> node" where
  "spice_file_title_node d =
     (let title0 = append_child (new_element spice_file_title) (Text ''spice_file'')
      in if d_arguments d \<noteq> []
         then append_child title0
                (Element spice_file_subtitle no_attrs False False (d_subtitle_nodes d))
         else title0)"

definition construct_spice_file ::
    "string \<Rightarrow> host \<Rightarrow> directive \<Rightarrow> string \<Rightarrow> nat \<Rightarrow> string \<Rightarrow> node" where
  "construct_spice_file name h d doc serial_number label =
     (let node0 = (if opt_nonumber (d_options d) then new_element spice_file_node
                   else new_element spice_file_enumerable_node);
          is_gated = (name = ''spice_file-start'');
          section = Element docutils_section (no_attrs\<lparr>a_ids := [''spice_file-content'']\<rparr>)
                      False False (d_content d);
          classes = name # option_classes (d_options d);
          a = attributes node0
      in Element (tag node0)
           (a\<lparr>a_classes := a_classes a @ classes,
              a_ids := a_ids a @ [label],
              a_label := Some label,
              a_docname := Some doc,
              a_title := Some ''spice_file'',
              a_type := Some name,
              a_hidden := Some (opt_hidden (d_options d)),
              a_serial_number := Some serial_number,
              a_names := a_names a @ [fully_normalize_name h label]\<rparr>)
           is_gated False [spice_file_title_node d, section])"

text \<open>
  \<open>spice_fileDirective.run\<close>, for the class attribute \<open>name\<close>: \<open>spice_file\<close>, or
  \<open>spice_file-start\<close> when the gated directive calls it through \<open>super()\<close>. The result is the
  new environment and the addresses of the nodes returned to the parser. The registry gets a
  deep copy of the node.
\<close>

definition spice_file_run :: "string \<Rightarrow> host \<Rightarrow> directive \<Rightarrow> env \<Rightarrow> env \<times> nat list" where
  "spice_file_run name h d e0 =
     (let serial_number = serialno e0;
          e1 = init_registry (e0\<lparr>serialno := serialno e0 + 1\<rparr>);
          label = directive_label ''spice_file'' d e1 serial_number
      in case duplicate_labels h label e1 of
           (e2, True) \<Rightarrow> (e2, [])
         | (e2, False) \<Rightarrow>
             (let node = construct_spice_file name h d (docname e2) serial_number label;
                  (e3, live) = new_object node e2;
                  (e4, copy) = deepcopy live e3;
                  e5 = set_registry label
                         \<lparr>e_type = name, e_docname = docname e4, e_node = copy\<rparr> e4
              in if opt_hidden (d_options d) then (e5, []) else (e5, [live])))"

definition spice_fileDirective_run :: "host \<Rightarrow> directive \<Rightarrow> env \<Rightarrow> env \<times> nat list" where
  "spice_fileDirective_run = spice_file_run ''spice_file''"

text \<open>
  The node that \<open>spice_simulationDirective.run\<close> constructs, for the class attributes \<open>name\<close>
  and \<open>spice_simulation_node\<close> of the directive that runs it.
\<close>

definition construct_spice_simulation ::
    "string \<Rightarrow> ntype \<Rightarrow> host \<Rightarrow> directive \<Rightarrow> string \<Rightarrow> string \<Rightarrow> nat \<Rightarrow> string \<Rightarrow> node" where
  "construct_spice_simulation name node_class h d target_label doc serial_number label =
     (let title_text = ''spice_simulation to'';
          title = append_child (new_element spice_simulation_title) (Text title_text);
          section = Element docutils_section
                      (no_attrs\<lparr>a_ids := [''spice_simulation-content'']\<rparr>)
                      False False (d_content d);
          classes = name # option_classes (d_options d);
          a = attributes (new_element node_class)
      in Element node_class
           (a\<lparr>a_target_label := Some target_label,
              a_classes := a_classes a @ classes,
              a_ids := a_ids a @ [label],
              a_label := Some label,
              a_docname := Some doc,
              a_title := Some title_text,
              a_type := Some name,
              a_hidden := Some (opt_hidden (d_options d)),
              a_serial_number := Some serial_number,
              a_names := a_names a @ [fully_normalize_name h label]\<rparr>)
           False False [title, section])"

text \<open>
  \<open>spice_simulationDirective.run\<close>. The single argument is required: without it
  \<open>self.arguments[0]\<close> raises. The registry gets the node itself.
\<close>

definition spice_simulation_run ::
    "string \<Rightarrow> ntype \<Rightarrow> host \<Rightarrow> directive \<Rightarrow> env \<Rightarrow> error + env \<times> nat list" where
  "spice_simulation_run name node_class h d e0 =
     (case d_arguments d of
        [] \<Rightarrow> Inl IndexError
      | target_label # _ \<Rightarrow>
         (let serial_number = serialno e0;
              e1 = init_registry (e0\<lparr>serialno := serialno e0 + 1\<rparr>);
              label = directive_label ''spice_simulation'' d e1 serial_number
          in if hide_spice_simulations e1 then Inr (e1, [])
             else
               (case duplicate_labels h label e1 of
                  (e2, True) \<Rightarrow> Inr (e2, [])
                | (e2, False) \<Rightarrow>
                    (let node = construct_spice_simulation name node_class h d target_label
                                  (docname e2) serial_number label;
                         (e3, live) = new_object node e2;
                         e4 = set_registry label
                                \<lparr>e_type = name, e_docname = docname e3, e_node = live\<rparr> e3
                     in if opt_hidden (d_options d) then Inr (e4, [])
                        else Inr (e4, [live])))))"

definition spice_simulationDirective_run ::
    "host \<Rightarrow> directive \<Rightarrow> env \<Rightarrow> error + env \<times> nat list" where
  "spice_simulationDirective_run = spice_simulation_run ''spice_simulation'' spice_simulation_node"

subsection \<open>The gated directives\<close>

definition the_gated_registry :: "env \<Rightarrow> gated_registry" where
  "the_gated_registry e =
     (case sphinx_spice_file_gated_registry e of None \<Rightarrow> Map.empty | Some g \<Rightarrow> g)"

definition empty_gated_record :: "string \<Rightarrow> gated_record" where
  "empty_gated_record nodetype =
     \<lparr>g_start = [], g_end = [], g_sequence = [], g_msg = [], g_type = nodetype\<rparr>"

text \<open>
  The opening lines that the four gated directives share: create the registry and the
  record of the current document if they are missing, the record with the directive's own
  \<open>type\<close>.
\<close>

definition gated_record_for :: "string \<Rightarrow> env \<Rightarrow> gated_record" where
  "gated_record_for nodetype e =
     (case the_gated_registry e (docname e) of
        None \<Rightarrow> empty_gated_record nodetype
      | Some r \<Rightarrow> r)"

definition set_gated_record :: "gated_record \<Rightarrow> env \<Rightarrow> env" where
  "set_gated_record r e =
     e\<lparr>sphinx_spice_file_gated_registry := Some ((the_gated_registry e)(docname e \<mapsto> r))\<rparr>"

definition line_msg :: "string \<Rightarrow> int \<Rightarrow> string" where
  "line_msg name lineno = name @ '' at line: '' @ str_int lineno"

definition record_start :: "string \<Rightarrow> string \<Rightarrow> int \<Rightarrow> env \<Rightarrow> env" where
  "record_start nodetype name lineno e =
     (let r = gated_record_for nodetype e
      in set_gated_record
           (r\<lparr>g_start := g_start r @ [lineno],
              g_sequence := g_sequence r @ [''S''],
              g_msg := g_msg r @ [line_msg name lineno]\<rparr>) e)"

definition record_end :: "string \<Rightarrow> string \<Rightarrow> int \<Rightarrow> env \<Rightarrow> env" where
  "record_end nodetype name lineno e =
     (let r = gated_record_for nodetype e
      in set_gated_record
           (r\<lparr>g_end := g_end r @ [lineno],
              g_sequence := g_sequence r @ [''E''],
              g_msg := g_msg r @ [line_msg name lineno]\<rparr>) e)"

definition spice_fileStartDirective_run :: "host \<Rightarrow> directive \<Rightarrow> env \<Rightarrow> env \<times> nat list" where
  "spice_fileStartDirective_run h d e =
     spice_file_run ''spice_file-start'' h d
       (record_start ''spice_file'' ''spice_file-start'' (d_lineno d) e)"

definition spice_fileEndDirective_run :: "host \<Rightarrow> directive \<Rightarrow> env \<Rightarrow> env \<times> nat list" where
  "spice_fileEndDirective_run h d e =
     (let e1 = record_end ''spice_file'' ''spice_file-end'' (d_lineno d) e;
          (e2, a) = new_object (new_element spice_file_end_node) e1
      in (e2, [a]))"

definition spice_simulationStartDirective_run ::
    "host \<Rightarrow> directive \<Rightarrow> env \<Rightarrow> error + env \<times> nat list" where
  "spice_simulationStartDirective_run h d e =
     spice_simulation_run ''spice_simulation-start'' spice_simulation_start_node h d
       (record_start ''spice_simulation'' ''spice_simulation-start'' (d_lineno d) e)"

definition spice_simulationEndDirective_run ::
    "host \<Rightarrow> directive \<Rightarrow> env \<Rightarrow> env \<times> nat list" where
  "spice_simulationEndDirective_run h d e =
     (let e1 = record_end ''spice_simulation'' ''spice_simulation-end'' (d_lineno d) e;
          (e2, a) = new_object (new_element spice_simulation_end_node) e1
      in (e2, [a]))"

section \<open>CheckGatedDirectives\<close>

text \<open>\<open>re.findall("(SE)", sequence)\<close>: the matches of \<open>SE\<close>, scanning from the left.\<close>

fun findall_SE :: "string \<Rightarrow> string list" where
  "findall_SE (a # b # rest) =
     (if a = CHR ''S'' \<and> b = CHR ''E'' then ''SE'' # findall_SE rest
      else findall_SE (b # rest))"
| "findall_SE [a] = []"
| "findall_SE [] = []"

definition missing_end_msg :: "string \<Rightarrow> string \<Rightarrow> string \<Rightarrow> string" where
  "missing_end_msg doc nodetype structure =
     ''The document ('' @ doc @ '') is missing a '' @ nodetype @ ''-end directive''
       @ newline @ ''  '' @ structure"

definition missing_start_msg :: "string \<Rightarrow> string \<Rightarrow> string \<Rightarrow> string" where
  "missing_start_msg doc nodetype structure =
     ''The document ('' @ doc @ '') is missing a '' @ nodetype @ ''-start directive''
       @ newline @ ''  '' @ structure"

definition nested_msg :: "string \<Rightarrow> string \<Rightarrow> string \<Rightarrow> string" where
  "nested_msg doc nodetype structure =
     ''The document ('' @ doc @ '') contains nested '' @ nodetype @ ''-start and ''
       @ nodetype @ ''-end directives'' @ newline @ ''  '' @ structure"

definition gated_error_msg :: string where
  "gated_error_msg =
     ''[sphinx-spice_file] An error has occured when parsing gated directives.''
       @ newline @ ''Please check warning messages above''"

text \<open>
  \<open>check_structure\<close> returns what it passed to \<open>logger.error\<close>, in order, and its outcome:
  \<open>Inl (ExtensionError msg)\<close> when it raises, \<open>Inr ()\<close> when it returns.
\<close>

definition check_structure :: "string \<Rightarrow> gated_registry \<Rightarrow> string list \<times> (error + unit)" where
  "check_structure doc registry =
     (case registry doc of
        None \<Rightarrow> ([], Inr ())
      | Some r \<Rightarrow>
          (let start = g_start r;
               end = g_end r;
               sequence = concat (g_sequence r);
               structure = join (newline @ ''  '') (g_msg r);
               nodetype = g_type r;
               log1 = (if length start > length end
                       then [missing_end_msg doc nodetype structure] else []);
               log2 = (if length start < length end
                       then [missing_start_msg doc nodetype structure] else []);
               log3 = (if length start = length end
                          \<and> length (findall_SE sequence) \<noteq> length start
                       then [nested_msg doc nodetype structure] else []);
               logged = log1 @ log2 @ log3
           in if logged \<noteq> [] then (logged, Inl (ExtensionError gated_error_msg))
              else (logged, Inr ())))"

text \<open>\<open>CheckGatedDirectives.apply\<close>: nothing to check while no gated directive has run.\<close>

definition CheckGatedDirectives_apply :: "env \<Rightarrow> string list \<times> (error + unit)" where
  "CheckGatedDirectives_apply e =
     (case sphinx_spice_file_gated_registry e of
        None \<Rightarrow> ([], Inr ())
      | Some registry \<Rightarrow> check_structure (docname e) registry)"

text \<open>
  A record is \<open>tracked\<close> when it is one the four gated directives can have written: every
  token is \<open>"S"\<close> or \<open>"E"\<close>, with one \<open>"S"\<close> for each entry of \<open>start\<close> and one \<open>"E"\<close> for
  each entry of \<open>end\<close>.
\<close>

definition tracked :: "gated_record \<Rightarrow> bool" where
  "tracked r =
     (list_all (\<lambda>t. t = ''S'' \<or> t = ''E'') (g_sequence r)
      \<and> length (filter (\<lambda>t. t = ''S'') (g_sequence r)) = length (g_start r)
      \<and> length (filter (\<lambda>t. t = ''E'') (g_sequence r)) = length (g_end r))"

section \<open>MergeGatedspice_simulations\<close>

text \<open>\<open>node.get("label")\<close>; a text leaf is never asked.\<close>

fun get_label :: "node \<Rightarrow> string option" where
  "get_label (Text s) = None"
| "get_label (Element t a g r cs) = a_label a"

text \<open>
  \<open>MergeGatedspice_simulations.find_nodes\<close> on the children of the node's parent: the index
  of the first start node with the label, and the index of the first end node from there on.
\<close>

definition find_nodes_simulation :: "string option \<Rightarrow> node list \<Rightarrow> nat option \<times> nat option" where
  "find_nodes_simulation label cs =
     (case first_index (\<lambda>child. is_a spice_simulation_start_node child
                                \<and> label = get_label child) cs of
        None \<Rightarrow> (None, None)
      | Some idx1 \<Rightarrow>
          (Some idx1,
           case first_index (is_a spice_simulation_end_node) (drop idx1 cs) of
             None \<Rightarrow> None
           | Some idx2 \<Rightarrow> Some (idx1 + idx2)))"

text \<open>
  The node that \<open>apply\<close> builds for a start node and the siblings between the two markers:
  the attributes of the start node with the class and the type renamed, the children of
  the start node that are not sections, and a new content section with the siblings.
\<close>

definition merged_simulation :: "node \<Rightarrow> node list \<Rightarrow> node" where
  "merged_simulation node between =
     (let a = attributes node;
          content = Element docutils_section
                      (no_attrs\<lparr>a_ids := [''spice_simulation-content'']\<rparr>)
                      False False between
      in Element spice_simulation_node
           (a\<lparr>a_classes := map (replace ''spice_simulation-start'' ''spice_simulation'')
                               (a_classes a),
              a_type := Some ''spice_simulation''\<rparr>)
           False False
           (filter (\<lambda>child. \<not> is_a docutils_section child) (kids node) @ [content]))"

text \<open>
  The body of the loop of \<open>apply\<close> for the start node at index \<open>i\<close> of its parent's children
  \<open>cs\<close>, when \<open>find_nodes\<close> has returned \<open>parent_start\<close> and \<open>parent_end\<close>: the children of the
  parent afterwards. Siblings are removed by identity, that is by position. The start node
  found is the node itself unless an earlier sibling has its label; if the node then lies
  between that sibling and the end marker, it has moved into the content before
  \<open>replace_self\<close> looks for it, and the new node never enters the parent.
\<close>

definition merge_simulation_at :: "nat \<Rightarrow> nat \<Rightarrow> nat \<Rightarrow> node list \<Rightarrow> node list" where
  "merge_simulation_at i parent_start parent_end cs =
     (let new_node = merged_simulation (cs ! i) (slice cs (parent_start + 1) parent_end);
          cs1 = (if parent_start < i \<and> i < parent_end then cs else cs[i := new_node])
      in take (parent_start + 1) cs1 @ drop (parent_end + 1) cs1)"

text \<open>
  The loop of \<open>apply\<close> over \<open>findall(self.document, spice_simulation_start_node)\<close>, as the
  iterator of docutils runs it: the tree in document order, a node before its children,
  the children of a parent by their index in the list as it is at that moment. The walk
  over the children of one parent has the children already passed in \<open>done\<close> and those to
  come in \<open>todo\<close>. After a merge the iterator goes on below the start node, which is no
  longer in the tree; the title that the new node shares with it holds only text, and the
  walk does not enter it. A start node without an end marker among its siblings stays,
  and the walk enters it.
\<close>

function walk_simulation_starts :: "node list \<Rightarrow> node list \<Rightarrow> node list"
  and descend_simulation_starts :: "node \<Rightarrow> node" where
  "walk_simulation_starts done [] = done"
| "walk_simulation_starts done (c # rest) =
     (if is_a spice_simulation_start_node c then
        (case find_nodes_simulation (get_label c) (done @ c # rest) of
           (Some parent_start, Some parent_end) \<Rightarrow>
             if parent_end = 0
             then walk_simulation_starts (done @ [descend_simulation_starts c]) rest
             else
               (let cs1 = merge_simulation_at (length done) parent_start parent_end
                            (done @ c # rest)
                in walk_simulation_starts (take (Suc (length done)) cs1)
                     (drop (Suc (length done)) cs1))
         | _ \<Rightarrow> walk_simulation_starts (done @ [descend_simulation_starts c]) rest)
      else walk_simulation_starts (done @ [descend_simulation_starts c]) rest)"
| "descend_simulation_starts (Text s) = Text s"
| "descend_simulation_starts (Element t a g r cs) =
     Element t a g r (walk_simulation_starts [] cs)"
  by pat_completeness auto
termination
proof (relation "measure (\<lambda>x. case x of Inl (done, todo) \<Rightarrow> size_list size todo
                                       | Inr n \<Rightarrow> size n)", goal_cases)
  case 1
  show ?case by simp
next
  case (8 "done" c rest x y parent_start parent_end cs1)
  let ?i = "length done"
  let ?cs = "done @ c # rest"
  let ?P = "\<lambda>child. is_a spice_simulation_start_node child \<and> get_label c = get_label child"
  from 8(2,3,4) have fn: "find_nodes_simulation (get_label c) ?cs
      = (Some parent_start, Some parent_end)"
    by metis
  then have first: "first_index ?P ?cs = Some parent_start" and le: "parent_start \<le> parent_end"
    by (auto simp add: find_nodes_simulation_def split: option.splits)
  have "first_index ?P (xs @ c # rest) = Some j \<Longrightarrow> j \<le> length xs" for xs j
    using 8(1) by (induction xs arbitrary: j) (auto split: if_splits)
  from this [OF first] have at: "parent_start \<le> ?i" .
  have smaller: "size_list size (drop n xs) \<le> size_list size xs" for n and xs :: "node list"
  proof (induction xs arbitrary: n)
    case Nil
    show ?case by simp
  next
    case (Cons x xs)
    show ?case
    proof (cases n)
      case 0
      then show ?thesis by simp
    next
      case (Suc m)
      from Cons.IH [of m] have "size_list size (drop m xs) \<le> Suc (size x + size_list size xs)"
        by linarith
      with Suc show ?thesis by simp
    qed
  qed
  have rest_after: "drop (Suc i) (merge_simulation_at i ps pe cs) = drop (pe - ps) (drop (Suc i) cs)"
    if "ps \<le> i" and "ps \<le> pe" and "i < length cs" for i ps pe and cs :: "node list"
  proof -
    let ?new = "merged_simulation (cs ! i) (slice cs (ps + 1) pe)"
    let ?cs1 = "if ps < i \<and> i < pe then cs else cs[i := ?new]"
    have len: "length ?cs1 = length cs" by simp
    have keep: "drop (Suc i) ?cs1 = drop (Suc i) cs" by simp
    have "drop (Suc i) (take (Suc ps) ?cs1 @ drop (Suc pe) ?cs1)
          = drop (Suc i - Suc ps) (drop (Suc pe) ?cs1)"
      using that len by (simp add: min_def)
    also have "\<dots> = drop (pe - ps) (drop (Suc i) ?cs1)"
      using that by (simp add: add.commute)
    finally show ?thesis
      unfolding merge_simulation_at_def Let_def using keep by (metis Suc_eq_plus1)
  qed
  from rest_after [OF at le, of ?cs] 8(6)
  have "drop (Suc ?i) cs1 = drop (parent_end - parent_start) rest" by simp
  with smaller [of "parent_end - parent_start" rest] show ?case by simp
qed simp_all

text \<open>A start node at the root has no parent to search.\<close>

definition MergeGatedspice_simulations_apply :: "node \<Rightarrow> error + node" where
  "MergeGatedspice_simulations_apply doc =
     (if is_a spice_simulation_start_node doc then Inl AttributeError
      else Inr (descend_simulation_starts doc))"

section \<open>MergeGatedspice_files\<close>

text \<open>
  \<open>MergeGatedspice_files.find_nodes\<close>: the index of the first file node of either class with
  the label, and the index of the first end node from there on.
\<close>

definition find_nodes_file :: "string option \<Rightarrow> node list \<Rightarrow> nat option \<times> nat option" where
  "find_nodes_file label cs =
     (case first_index (\<lambda>child. (is_a spice_file_node child
                                  \<or> is_a spice_file_enumerable_node child)
                                \<and> label = get_label child) cs of
        None \<Rightarrow> (None, None)
      | Some idx1 \<Rightarrow>
          (Some idx1,
           case first_index (is_a spice_file_end_node) (drop idx1 cs) of
             None \<Rightarrow> None
           | Some idx2 \<Rightarrow> Some (idx1 + idx2)))"

text \<open>
  What \<open>merge_nodes\<close> does to the node itself, for the siblings between the two markers:
  \<open>-start\<close> is cut out of the classes and of the type, and the siblings are appended to
  the last child of the node, its content section.
\<close>

fun merged_file :: "node \<Rightarrow> node list \<Rightarrow> error + node" where
  "merged_file (Text s) between = Inl AttributeError"
| "merged_file (Element t a g r cs) between =
     (case a_type a of
        None \<Rightarrow> Inl (KeyError ''type'')
      | Some ty \<Rightarrow>
          (let a1 = a\<lparr>a_classes := map (replace ''-start'' []) (a_classes a),
                       a_type := Some (replace ''-start'' [] ty)\<rparr>
           in if cs = [] then Inl IndexError
              else
                (case last cs of
                   Text s \<Rightarrow> if between = [] then Inr (Element t a1 g r cs) else Inl TypeError
                 | Element ct ca cg cr ccs \<Rightarrow>
                     Inr (Element t a1 g r
                            (butlast cs @ [Element ct ca cg cr (ccs @ between)])))))"

text \<open>
  \<open>merge_nodes(node)\<close> for the node at index \<open>i\<close> of its parent's children \<open>cs\<close>: the children
  of the parent afterwards. The file node found is the node itself unless an earlier
  sibling has its label. If the node then lies between that sibling and the end marker, it
  becomes a child of its own content, and the iterator of \<open>apply\<close> that enters it next never
  comes back; if it lies behind the end marker, siblings that the iterator has passed move
  into it, which the walk below does not follow.
\<close>

definition merge_nodes :: "nat \<Rightarrow> node list \<Rightarrow> error + node list" where
  "merge_nodes i cs =
     (case find_nodes_file (get_label (cs ! i)) cs of
        (Some parent_start, Some parent_end) \<Rightarrow>
          if parent_end = 0 then Inr cs
          else
            (case merged_file (cs ! i) (slice cs (parent_start + 1) parent_end) of
               Inl err \<Rightarrow> Inl err
             | Inr node1 \<Rightarrow>
                 if parent_start = i
                 then Inr (take (i + 1) (cs[i := node1]) @ drop (parent_end + 1) cs)
                 else if i < parent_end then Inl RecursionError
                 else Inl Unmodelled)
      | _ \<Rightarrow> Inr cs)"

fun set_gated :: "bool \<Rightarrow> node \<Rightarrow> node" where
  "set_gated b (Element t a g r cs) = Element t a b r cs"
| "set_gated b (Text s) = Text s"

text \<open>
  One loop of \<open>apply\<close>, over the nodes of the class \<open>tg\<close>: a gated node is merged, every node
  of the class has its \<open>gated\<close> flag cleared, and the iterator goes on below the node, where
  the merged siblings now are.
\<close>

function walk_gated :: "ntype \<Rightarrow> node list \<Rightarrow> node list \<Rightarrow> error + node list"
  and descend_gated :: "ntype \<Rightarrow> node \<Rightarrow> error + node" where
  "walk_gated tg done [] = Inr done"
| "walk_gated tg done (c # rest) =
     (if is_a tg c then
        (case (if gated c then merge_nodes (length done) (done @ c # rest)
               else Inr (done @ c # rest)) of
           Inl err \<Rightarrow> Inl err
         | Inr cs1 \<Rightarrow>
             (case descend_gated tg (set_gated False (cs1 ! length done)) of
                Inl err \<Rightarrow> Inl err
              | Inr n \<Rightarrow>
                  walk_gated tg (take (length done) cs1 @ [n]) (drop (Suc (length done)) cs1)))
      else
        (case descend_gated tg c of
           Inl err \<Rightarrow> Inl err
         | Inr n \<Rightarrow> walk_gated tg (done @ [n]) rest))"
| "descend_gated tg (Text s) = Inr (Text s)"
| "descend_gated tg (Element t a g r cs) =
     (case walk_gated tg [] cs of
        Inl err \<Rightarrow> Inl err
      | Inr cs1 \<Rightarrow> Inr (Element t a g r cs1))"
  by pat_completeness auto
termination
proof (relation "measure (\<lambda>x. case x of Inl (tg, done, todo) \<Rightarrow> size_list size todo
                                       | Inr (tg, n) \<Rightarrow> size n)", goal_cases)
  case 1
  show ?case by simp
next
  case (2 tg "done" c rest cs1)
  have part: "size_list size (take k xs) \<le> size_list size xs" for k and xs :: "node list"
  proof (induction xs arbitrary: k)
    case Nil
    show ?case by simp
  next
    case (Cons x xs)
    show ?case using Cons.IH by (cases k) auto
  qed
  have grown: "size n1 \<le> size n + size_list size between"
    if "merged_file n between = Inr n1" for n n1 between
  proof (cases n)
    case (Text s)
    with that show ?thesis by simp
  next
    case (Element t a g r cs)
    have last: "size_list size (butlast cs @ [x]) = size_list size (butlast cs) + size x + 1"
      for x :: node by simp
    have whole: "cs \<noteq> [] \<Longrightarrow> size_list size cs = size_list size (butlast cs) + size (last cs) + 1"
      by (induction cs) auto
    from that Element whole show ?thesis
      by (auto simp add: Let_def split: option.splits if_splits node.splits)
  qed
  have same: "size (set_gated False n) = size n" for n by (cases n) simp_all
  let ?i = "length done"
  let ?cs = "done @ c # rest"
  have "size (cs1 ! ?i) \<le> size c + size_list size rest"
  proof (cases "cs1 = ?cs")
    case True
    then show ?thesis by simp
  next
    case False
    with 2(2) obtain parent_end node1 where
      m: "merged_file (?cs ! ?i) (slice ?cs (?i + 1) parent_end) = Inr node1"
      and r: "cs1 = take (?i + 1) (?cs[?i := node1]) @ drop (parent_end + 1) ?cs"
      by (auto simp add: merge_nodes_def split: if_splits prod.splits option.splits sum.splits)
    from r have "cs1 ! ?i = node1" by (simp add: nth_append)
    moreover have "slice ?cs (?i + 1) parent_end = take (parent_end - (?i + 1)) rest"
      by (simp add: slice_def)
    ultimately show ?thesis using grown [OF m] part [of "parent_end - (?i + 1)" rest] by simp
  qed
  then show ?case by (simp add: same)
next
  case (3 tg "done" c rest cs1 n)
  have part: "size_list size (drop k xs) \<le> size_list size xs" for k and xs :: "node list"
  proof (induction xs arbitrary: k)
    case Nil
    show ?case by simp
  next
    case (Cons x xs)
    show ?case
    proof (cases k)
      case 0
      then show ?thesis by simp
    next
      case (Suc m)
      from Cons.IH [of m] have "size_list size (drop m xs) \<le> Suc (size x + size_list size xs)"
        by linarith
      with Suc show ?thesis by simp
    qed
  qed
  let ?i = "length done"
  let ?cs = "done @ c # rest"
  have "\<exists>k. drop (Suc ?i) cs1 = drop k rest"
  proof (cases "cs1 = ?cs")
    case True
    then have "drop (Suc ?i) cs1 = drop 0 rest" by simp
    then show ?thesis by blast
  next
    case False
    with 3(2) obtain parent_end node1 where
      r: "cs1 = take (?i + 1) (?cs[?i := node1]) @ drop (parent_end + 1) ?cs"
      and e: "find_nodes_file (get_label (?cs ! ?i)) ?cs = (Some ?i, Some parent_end)"
      by (auto simp add: merge_nodes_def split: if_splits prod.splits option.splits sum.splits)
    from e have "?i \<le> parent_end"
      by (auto simp add: find_nodes_file_def split: option.splits)
    then have "Suc parent_end - ?i = Suc (parent_end - ?i)" by simp
    with r have "drop (Suc ?i) cs1 = drop (parent_end - ?i) rest" by simp
    then show ?thesis by blast
  qed
  then obtain k where "drop (Suc ?i) cs1 = drop k rest" by blast
  with part [of k rest] show ?case by simp
qed simp_all

text \<open>
  \<open>MergeGatedspice_files.apply\<close>: the loop over the file nodes, then the loop over the
  numbered file nodes. A gated node at the root has no parent to search.
\<close>

definition merge_gated_pass :: "ntype \<Rightarrow> node \<Rightarrow> error + node" where
  "merge_gated_pass tg doc =
     (if is_a tg doc then
        (if gated doc then Inl AttributeError else descend_gated tg (set_gated False doc))
      else descend_gated tg doc)"

definition MergeGatedspice_files_apply :: "node \<Rightarrow> error + node" where
  "MergeGatedspice_files_apply doc =
     (case merge_gated_pass spice_file_node doc of
        Inl err \<Rightarrow> Inl err
      | Inr doc1 \<Rightarrow> merge_gated_pass spice_file_enumerable_node doc1)"

section \<open>The post-transforms\<close>

text \<open>
  What a post-transform reads from the application: \<open>app.builder.format\<close>, whether the
  builder is a \<open>LaTeXBuilder\<close>, \<open>app.config.numfig_format["spice_file"]\<close>,
  \<open>builder.get_relative_uri\<close>, \<open>builder.current_docname\<close> (\<open>None\<close> for a builder without
  that attribute), and the two functions of the module \<open>utils.py\<close>, which is not among the
  sources: \<open>get_node_number(app, node, "spice_file")\<close> and \<open>find_parent(env, node,
  "section")\<close>.
\<close>

record app =
  builder_format :: string
  is_LaTeXBuilder :: bool
  numfig_format_spice_file :: string
  get_relative_uri :: "string \<Rightarrow> string \<Rightarrow> string"
  current_docname :: "string option"
  get_node_number :: "node \<Rightarrow> string"
  find_parent :: "node \<Rightarrow> string"

text \<open>
  \<open>node.astext()\<close>: the text of a leaf, and for an element the texts of its children joined
  by the separator of its class, which is empty for the text elements (titles, references
  and inline markup) and a blank line for the others. The title classes of \<open>nodes.py\<close> are
  taken to be text elements, as titles are.
\<close>

fun child_text_separator :: "ntype \<Rightarrow> string" where
  "child_text_separator docutils_document = newline @ newline"
| "child_text_separator docutils_section = newline @ newline"
| "child_text_separator docutils_container = newline @ newline"
| "child_text_separator sphinx_pending_xref = newline @ newline"
| "child_text_separator spice_file_node = newline @ newline"
| "child_text_separator spice_file_enumerable_node = newline @ newline"
| "child_text_separator spice_file_end_node = newline @ newline"
| "child_text_separator spice_simulation_node = newline @ newline"
| "child_text_separator spice_simulation_start_node = newline @ newline"
| "child_text_separator spice_simulation_end_node = newline @ newline"
| "child_text_separator t = []"

fun astext :: "node \<Rightarrow> string" where
  "astext (Text s) = s"
| "astext (Element t a g r cs) = join (child_text_separator t) (map astext cs)"

text \<open>\<open>fmt % arg\<close> for a format with one \<open>%s\<close>.\<close>

fun percent_format :: "string \<Rightarrow> string \<Rightarrow> string" where
  "percent_format [] arg = []"
| "percent_format (c # cs) arg =
     (if starts_with (c # cs) ''%s'' then arg @ drop 2 (c # cs)
      else c # percent_format cs arg)"

fun extend_children :: "node \<Rightarrow> node list \<Rightarrow> node" where
  "extend_children (Element t a g r cs) xs = Element t a g r (cs @ xs)"
| "extend_children (Text s) xs = Text s"

subsection \<open>UpdateReferencesToEnumerated\<close>

text \<open>
  The body of the loop of \<open>UpdateReferencesToEnumerated.run\<close> for one \<open>pending_xref\<close> node:
  the node as the body leaves it, or the exception it raises.
\<close>

fun update_reference :: "env \<Rightarrow> node \<Rightarrow> error + node" where
  "update_reference e (Text s) = Inl AttributeError"
| "update_reference e (Element t a g r cs) =
     (if a_reftype a \<noteq> Some ''numref'' then
        (case a_reftarget a of
           None \<Rightarrow> Inr (Element t a g r cs)
         | Some target_label \<Rightarrow>
            (case the_registry e target_label of
               None \<Rightarrow> Inr (Element t a g r cs)
             | Some target \<Rightarrow>
                 if is_a spice_file_enumerable_node (objs e ! e_node target) then
                   if a_refexplicit a = Some True then Inr (Element t a g r cs)
                   else
                     (case cs of
                        [] \<Rightarrow> Inl IndexError
                      | Text s # rest \<Rightarrow> Inl TypeError
                      | Element it ia ig ir ics # rest \<Rightarrow>
                          if ''std-ref'' \<notin> set (a_classes ia) then Inl ValueError
                          else
                            (let classes = remove1 ''std-ref'' (a_classes ia) @ [''std-numref''];
                                 lit = Element docutils_literal
                                         (no_attrs\<lparr>a_classes := classes\<rparr>) False False ics
                             in Inr (Element t (a\<lparr>a_reftype := Some ''numref''\<rparr>) g r
                                       (lit # rest))))
                 else Inr (Element t a g r cs)))
      else Inr (Element t a g r cs))"

subsection \<open>ResolveTitlesInspice_files\<close>

text \<open>The part of a resolved title that comes from the subtitle, if the title has one.\<close>

definition subtitle_part :: "node \<Rightarrow> node list" where
  "subtitle_part title_node =
     (case kids title_node of
        _ # subtitle # _ \<Rightarrow>
          if is_a spice_file_subtitle subtitle
          then [Text '' (''] @ kids subtitle @ [Text '')'']
          else []
      | _ \<Rightarrow> [])"

text \<open>\<open>ResolveTitlesInspice_files.resolve_title\<close>.\<close>

fun resolve_title :: "app \<Rightarrow> node \<Rightarrow> error + node" where
  "resolve_title ap (Text s) = Inl IndexError"
| "resolve_title ap (Element t a g r []) = Inl IndexError"
| "resolve_title ap (Element t a g r (title_node # rest)) =
     (if is_a spice_file_title title_node then
        (let updated0 = new_element docutils_title;
             numbered =
               (if t = spice_file_enumerable_node then
                  (let updated1 =
                         (if builder_format ap = ''latex''
                          then append_child updated0
                                 (Text (percent_format (numfig_format_spice_file ap)
                                          (get_node_number ap (Element t a g r (title_node # rest)))))
                          else updated0)
                   in Inr (Element docutils_title
                             (no_attrs\<lparr>a_title := Some (numfig_format_spice_file ap)\<rparr>)
                             False False (kids updated1)))
                else
                  (case kids title_node of
                     [] \<Rightarrow> Inl IndexError
                   | c # _ \<Rightarrow> Inr (append_child updated0 c)))
         in case numbered of
              Inl err \<Rightarrow> Inl err
            | Inr updated2 \<Rightarrow>
                Inr (Element t a g True
                       (extend_children updated2 (subtitle_part title_node) # rest)))
      else Inr (Element t a g True (title_node # rest)))"

subsection \<open>resolve_spice_simulation_title\<close>

text \<open>\<open>build_reference_node\<close>, for the current document of the environment.\<close>

fun build_reference_node :: "app \<Rightarrow> env \<Rightarrow> node \<Rightarrow> error + node" where
  "build_reference_node ap e (Text s) = Inl AttributeError"
| "build_reference_node ap e (Element t a g r cs) =
     (case a_label a of
        None \<Rightarrow> Inl TypeError
      | Some label \<Rightarrow>
          (let target_doc = (case a_docname a of None \<Rightarrow> [] | Some dn \<Rightarrow> dn);
               refuri = get_relative_uri ap (docname e) target_doc @ ''#'' @ label
           in Inr (Element docutils_reference
                     (no_attrs\<lparr>a_internal := Some True, a_refuri := Some refuri,
                               a_anchorname := Some []\<rparr>)
                     False False [])))"

text \<open>
  \<open>resolve_spice_simulation_title(app, node, spice_file_node)\<close>; \<open>app.env\<close> is the second
  argument here. The function also marks the current document as one with equations when
  the subtitle holds a \<open>math\<close> node; that effect is \<open>marks_equations\<close> below.
\<close>

fun resolve_spice_simulation_title :: "app \<Rightarrow> env \<Rightarrow> node \<Rightarrow> node \<Rightarrow> error + node" where
  "resolve_spice_simulation_title ap e (Element t a g r (title_node # rest))
       (Element ft fa fg fr (file_title # frest)) =
     (if is_a spice_simulation_title title_node then
        (case kids file_title of
           [] \<Rightarrow> Inl IndexError
         | ft0 # _ \<Rightarrow>
            (let updated_title_text =
                   '' '' @ astext ft0
                   @ (if ft = spice_file_enumerable_node
                      then '' '' @ get_node_number ap (Element ft fa fg fr (file_title # frest))
                      else [])
             in case build_reference_node ap e (Element ft fa fg fr (file_title # frest)) of
                  Inl err \<Rightarrow> Inl err
                | Inr wrap0 \<Rightarrow>
                   (case a_title a of
                      None \<Rightarrow> Inl TypeError
                    | Some entry_title_text \<Rightarrow>
                       (let wrap_reference =
                              extend_children (append_child wrap0 (Text updated_title_text))
                                (subtitle_part file_title);
                            updated_title =
                              Element docutils_title no_attrs False False
                                [Text entry_title_text, wrap_reference]
                        in Inr (Element t
                                  (a\<lparr>a_title := Some (entry_title_text @ updated_title_text)\<rparr>)
                                  g True (updated_title # rest))))))
      else Inr (Element t a g True (title_node # rest)))"
| "resolve_spice_simulation_title ap e n f = Inl IndexError"

definition marks_equations :: "node \<Rightarrow> node \<Rightarrow> bool" where
  "marks_equations node file_node =
     (case (kids node, kids file_node) of
        (title_node # _, file_title # _) \<Rightarrow>
          is_a spice_simulation_title title_node
          \<and> (\<exists>c \<in> set (subtitle_part file_title). is_a docutils_math c)
      | _ \<Rightarrow> False)"

subsection \<open>ResolveTitlesInspice_simulations\<close>

text \<open>How an f-string prints an attribute that may be absent.\<close>

fun str_opt :: "string option \<Rightarrow> string" where
  "str_opt None = ''None''"
| "str_opt (Some s) = s"

text \<open>The \<open>except\<close> branch: one warning, located at the path of the document.\<close>

definition warn_undefined_label :: "app \<Rightarrow> host \<Rightarrow> node \<Rightarrow> string option \<Rightarrow> env \<Rightarrow> env" where
  "warn_undefined_label ap h node target_label e =
     (let doc = (if is_LaTeXBuilder ap then find_parent ap node
                 else (case current_docname ap of Some d \<Rightarrow> d | None \<Rightarrow> docname e));
          docpath = doc2path h doc;
          path = slice_to docpath (rfind_dot docpath);
          msg = ''undefined label: '' @ str_opt target_label
      in e\<lparr>warnings := warnings e @ [(msg, path)]\<rparr>)"

text \<open>
  The body of the loop of \<open>ResolveTitlesInspice_simulations.run\<close> for one simulation node:
  the environment and the node as the body leaves them, and whether the body has executed
  its \<open>return\<close>. The assignment \<open>registry[label]["node"] = node\<close> makes the entry refer to
  the node of the tree, here to a new address that holds it.
\<close>

definition resolve_simulation_node :: "app \<Rightarrow> host \<Rightarrow> env \<Rightarrow> node \<Rightarrow> env \<times> node \<times> bool" where
  "resolve_simulation_node ap h e node =
     (let label = a_label (attributes node);
          target_label = a_target_label (attributes node)
      in case (case target_label of None \<Rightarrow> None | Some tlabel \<Rightarrow> the_registry e tlabel) of
           None \<Rightarrow> (warn_undefined_label ap h node target_label e, node, True)
         | Some target \<Rightarrow>
             (case resolve_spice_simulation_title ap e node (objs e ! e_node target) of
                Inl err \<Rightarrow> (warn_undefined_label ap h node target_label e, node, True)
              | Inr node1 \<Rightarrow>
                  (case (case label of None \<Rightarrow> None | Some l \<Rightarrow> the_registry e l) of
                     None \<Rightarrow> (warn_undefined_label ap h node1 target_label e, node1, True)
                   | Some own \<Rightarrow>
                       (let (e1, addr) = new_object node1 e
                        in (set_registry (the label) (own\<lparr>e_node := addr\<rparr>) e1,
                            node1, False)))))"

text \<open>
  The loop over \<open>findall(self.document, spice_simulation_node)\<close>: the tree in document order,
  each simulation node before its children. The walk does not enter a title that the body
  has just built, which holds text, one reference and the inline nodes of a subtitle. Once
  the body has returned, the rest of the tree is left as it is.
\<close>

fun walk_simulations :: "app \<Rightarrow> host \<Rightarrow> node \<Rightarrow> env \<times> bool \<Rightarrow> node \<times> env \<times> bool"
and walk_simulations_list ::
    "app \<Rightarrow> host \<Rightarrow> node list \<Rightarrow> env \<times> bool \<Rightarrow> node list \<times> env \<times> bool" where
  "walk_simulations ap h (Text s) st = (Text s, st)"
| "walk_simulations ap h (Element t a g r cs) (e, returned) =
     (if returned then (Element t a g r cs, e, returned)
      else if t = spice_simulation_node then
        (case resolve_simulation_node ap h e (Element t a g r cs) of
           (e1, n1, True) \<Rightarrow> (n1, e1, True)
         | (e1, n1, False) \<Rightarrow>
             (case cs of
                [] \<Rightarrow> (n1, e1, False)
              | c # rest \<Rightarrow>
                  if is_a spice_simulation_title c then
                    (case walk_simulations_list ap h rest (e1, False) of
                       (rest1, st1) \<Rightarrow>
                         (Element t (attributes n1) g (resolved_title n1)
                            (take 1 (kids n1) @ rest1), st1))
                  else
                    (case walk_simulations_list ap h cs (e1, False) of
                       (cs1, st1) \<Rightarrow>
                         (Element t (attributes n1) g (resolved_title n1) cs1, st1))))
      else
        (case walk_simulations_list ap h cs (e, False) of
           (cs1, st1) \<Rightarrow> (Element t a g r cs1, st1)))"
| "walk_simulations_list ap h [] st = ([], st)"
| "walk_simulations_list ap h (c # cs) st =
     (case walk_simulations ap h c st of
        (c1, st1) \<Rightarrow>
          (case walk_simulations_list ap h cs st1 of
             (cs1, st2) \<Rightarrow> (c1 # cs1, st2)))"

definition ResolveTitlesInspice_simulations_run ::
    "app \<Rightarrow> host \<Rightarrow> env \<Rightarrow> node \<Rightarrow> node \<times> env" where
  "ResolveTitlesInspice_simulations_run ap h e doc =
     (case sphinx_spice_file_registry e of
        None \<Rightarrow> (doc, e)
      | Some registry \<Rightarrow>
          (case walk_simulations ap h doc (e, False) of (doc1, e1, returned) \<Rightarrow> (doc1, e1)))"

subsection \<open>ResolveLinkTextTospice_simulations\<close>

text \<open>
  The body of the loop of \<open>ResolveLinkTextTospice_simulations.run\<close> for one reference node:
  the environment and the node as the body leaves them, or the exception it raises, which
  nothing catches. The title of an unresolved target is resolved on the node that the
  registry holds. A first child that is a text leaf has no list of children to replace:
  \<open>inline += Text(...)\<close> then makes a longer string of it.
\<close>

fun resolve_link_text :: "app \<Rightarrow> env \<Rightarrow> node \<Rightarrow> error + env \<times> node" where
  "resolve_link_text ap e (Text s) = Inl AttributeError"
| "resolve_link_text ap e (Element t a g r cs) =
     (case (case a_refid a of None \<Rightarrow> None | Some refid \<Rightarrow> the_registry e refid) of
        None \<Rightarrow> Inr (e, Element t a g r cs)
      | Some target \<Rightarrow>
          (let target_node = objs e ! e_node target
           in if builder_format ap = ''latex'' \<and> is_a spice_file_enumerable_node target_node
              then Inr (e, Element spice_file_latex_number_reference a False False cs)
              else if is_a spice_simulation_node target_node then
                (case (if \<not> resolved_title target_node then
                         (case a_target_label (attributes target_node) of
                            None \<Rightarrow> Inl (KeyError ''None'')
                          | Some spice_file_label \<Rightarrow>
                              (case the_registry e spice_file_label of
                                 None \<Rightarrow> Inl (KeyError spice_file_label)
                               | Some spice_file_target \<Rightarrow>
                                   (case resolve_spice_simulation_title ap e target_node
                                           (objs e ! e_node spice_file_target) of
                                      Inl err \<Rightarrow> Inl err
                                    | Inr resolved \<Rightarrow>
                                        Inr (e\<lparr>objs := (objs e)[e_node target := resolved]\<rparr>,
                                             resolved))))
                       else Inr (e, target_node)) of
                   Inl err \<Rightarrow> Inl err
                 | Inr (e1, target_node1) \<Rightarrow>
                     (case kids target_node1 of
                        [] \<Rightarrow> Inl IndexError
                      | title_node # _ \<Rightarrow>
                          (case cs of
                             [] \<Rightarrow> Inl IndexError
                           | Text s # rest \<Rightarrow>
                               Inr (e1, Element t a g r (Text (s @ astext title_node) # rest))
                           | Element it ia ig ir ics # rest \<Rightarrow>
                               Inr (e1, Element t a g r
                                          (Element it ia ig ir [Text (astext title_node)]
                                             # rest)))))
              else Inr (e, Element t a g r cs)))"

text \<open>
  The title text of a simulation block as the specification composes it: the simulation's
  own prefix, the text of the file block's title, the number of a numbered file block, and
  the file block's subtitle in brackets.
\<close>

definition composed_title_text :: "app \<Rightarrow> node \<Rightarrow> node \<Rightarrow> string" where
  "composed_title_text ap node file_node =
     (let file_title = hd (kids file_node)
      in str_opt (a_title (attributes node))
         @ '' '' @ astext (hd (kids file_title))
         @ (if is_a spice_file_enumerable_node file_node
            then '' '' @ get_node_number ap file_node else [])
         @ concat (map astext (subtitle_part file_title)))"

section \<open>Properties of trees\<close>

text \<open>A function applied to every class of a node.\<close>

fun map_classes :: "(string \<Rightarrow> string) \<Rightarrow> node \<Rightarrow> node" where
  "map_classes f (Text s) = Text s"
| "map_classes f (Element t a g r cs) = Element t (a\<lparr>a_classes := map f (a_classes a)\<rparr>) g r cs"

text \<open>
  A tree without a marker: no simulation start node, no end node of either kind and no
  node with the \<open>gated\<close> flag set, at any depth.
\<close>

fun marker_free :: "node \<Rightarrow> bool" where
  "marker_free (Text s) = True"
| "marker_free (Element t a g r cs) =
     (t \<noteq> spice_simulation_start_node \<and> t \<noteq> spice_simulation_end_node
      \<and> t \<noteq> spice_file_end_node \<and> \<not> g \<and> (\<forall>c \<in> set cs. marker_free c))"

text \<open>A tree in which no node of the class \<open>tg\<close> has the \<open>gated\<close> flag set.\<close>

fun ungated :: "ntype \<Rightarrow> node \<Rightarrow> bool" where
  "ungated tg (Text s) = True"
| "ungated tg (Element t a g r cs) = ((t = tg \<longrightarrow> \<not> g) \<and> (\<forall>c \<in> set cs. ungated tg c))"

section \<open>Readers and sample inputs\<close>

text \<open>The token sequence and the record that the gated registry holds for the current document.\<close>

definition doc_record :: "env \<Rightarrow> gated_record option" where
  "doc_record e = the_gated_registry e (docname e)"

definition doc_sequence :: "env \<Rightarrow> string list" where
  "doc_sequence e =
     (case the_gated_registry e (docname e) of None \<Rightarrow> [] | Some r \<Rightarrow> g_sequence r)"

definition count_char :: "char \<Rightarrow> string \<Rightarrow> nat" where
  "count_char c s = length (filter (\<lambda>x. x = c) s)"

text \<open>
  The node that the registry holds for a label, read through the store, and an assignment
  to the object at an address, as an in-place change of a node is.
\<close>

definition registry_node :: "env \<Rightarrow> string \<Rightarrow> node option" where
  "registry_node e l = map_option (\<lambda>x. objs e ! e_node x) (the_registry e l)"

definition mutate :: "nat \<Rightarrow> (node \<Rightarrow> node) \<Rightarrow> env \<Rightarrow> env" where
  "mutate a f e = e\<lparr>objs := (objs e)[a := f (objs e ! a)]\<rparr>"

fun set_resolved_title :: "bool \<Rightarrow> node \<Rightarrow> node" where
  "set_resolved_title b (Element t a g r cs) = Element t a g b cs"
| "set_resolved_title b (Text s) = Text s"

text \<open>A fresh environment for a document, a host, and directives without content.\<close>

definition no_options :: options where
  "no_options = \<lparr>opt_label = None, opt_class = None, opt_nonumber = False, opt_hidden = False\<rparr>"

definition new_env :: "string \<Rightarrow> env" where
  "new_env doc = \<lparr>docname = doc, serialno = 0, sphinx_spice_file_registry = None,
     sphinx_spice_file_gated_registry = None, objs = [], warnings = [],
     hide_spice_simulations = False\<rparr>"

definition plain_host :: host where
  "plain_host = \<lparr>doc2path = (\<lambda>d. d @ ''.md''), fully_normalize_name = (\<lambda>s. s)\<rparr>"

definition marker :: "string list \<Rightarrow> int \<Rightarrow> directive" where
  "marker args l = \<lparr>d_options = no_options, d_arguments = args, d_lineno = l,
     d_content = [], d_subtitle_nodes = []\<rparr>"

definition labelled :: "string \<Rightarrow> string list \<Rightarrow> directive" where
  "labelled l args = \<lparr>d_options = no_options\<lparr>opt_label := Some l\<rparr>, d_arguments = args,
     d_lineno = 1, d_content = [], d_subtitle_nodes = []\<rparr>"

text \<open>
  One document in which a file block and a simulation block are both gated and their
  markers interleave: file start, simulation start, file end, simulation end.
\<close>

definition after_file_start :: env where
  "after_file_start =
     fst (spice_fileStartDirective_run plain_host (marker [] 1) (new_env ''doc''))"

definition after_simulation_start :: env where
  "after_simulation_start =
     fst (projr (spice_simulationStartDirective_run plain_host (marker [''f''] 2)
                   after_file_start))"

definition after_file_end :: env where
  "after_file_end =
     fst (spice_fileEndDirective_run plain_host (marker [] 3) after_simulation_start)"

definition interleaved_env :: env where
  "interleaved_env =
     fst (spice_simulationEndDirective_run plain_host (marker [] 4) after_file_end)"

text \<open>An environment in which the label \<open>x\<close> is registered, and one with a simulation block.\<close>

definition env_with_x :: env where
  "env_with_x = fst (spice_fileDirective_run plain_host (labelled ''x'' []) (new_env ''doc''))"

definition env_with_simulation :: env where
  "env_with_simulation =
     fst (projr (spice_simulationDirective_run plain_host (labelled ''s1'' [''f1''])
                   (new_env ''doc'')))"

text \<open>The record of a document with two gated blocks, one after the other.\<close>

definition sese_record :: gated_record where
  "sese_record = \<lparr>g_start = [1, 7], g_end = [4, 9], g_sequence = [''S'', ''E'', ''S'', ''E''],
     g_msg = [''spice_file-start at line: 1'', ''spice_file-end at line: 4'',
              ''spice_file-start at line: 7'', ''spice_file-end at line: 9''],
     g_type = ''spice_file''\<rparr>"

text \<open>
  An application with an HTML builder, and a document with a numbered file block \<open>f1\<close>, a
  simulation block \<open>s1\<close> whose target \<open>ghost\<close> is defined nowhere, and a simulation block
  \<open>s2\<close> whose target is \<open>f1\<close>: the environments after each directive, the nodes they
  construct, and the document trees with both simulation blocks and with the second alone.
\<close>

definition plain_app :: app where
  "plain_app = \<lparr>builder_format = ''html'', is_LaTeXBuilder = False,
     numfig_format_spice_file = ''File %s'',
     get_relative_uri = (\<lambda>from to. to @ ''.html''),
     current_docname = Some ''doc'',
     get_node_number = (\<lambda>n. ''1''),
     find_parent = (\<lambda>n. ''doc'')\<rparr>"

definition env_f1 :: env where
  "env_f1 = fst (spice_fileDirective_run plain_host (labelled ''f1'' []) (new_env ''doc''))"

definition env_s1 :: env where
  "env_s1 =
     fst (projr (spice_simulationDirective_run plain_host (labelled ''s1'' [''ghost'']) env_f1))"

definition env_s2 :: env where
  "env_s2 =
     fst (projr (spice_simulationDirective_run plain_host (labelled ''s2'' [''f1'']) env_s1))"

definition sample_file :: node where
  "sample_file =
     construct_spice_file ''spice_file'' plain_host (labelled ''f1'' []) ''doc'' 0 ''f1''"

definition ghost_simulation :: node where
  "ghost_simulation =
     construct_spice_simulation ''spice_simulation'' spice_simulation_node plain_host
       (labelled ''s1'' [''ghost'']) ''ghost'' ''doc'' 1 ''s1''"

definition second_simulation :: node where
  "second_simulation =
     construct_spice_simulation ''spice_simulation'' spice_simulation_node plain_host
       (labelled ''s2'' [''f1'']) ''f1'' ''doc'' 2 ''s2''"

definition two_simulations_doc :: node where
  "two_simulations_doc = Element docutils_document no_attrs False False
     [sample_file, ghost_simulation, second_simulation]"

definition second_only_doc :: node where
  "second_only_doc = Element docutils_document no_attrs False False
     [sample_file, second_simulation]"

text \<open>The second simulation block with its title resolved.\<close>

definition second_resolved :: node where
  "second_resolved = Element spice_simulation_node
     ((attributes second_simulation)\<lparr>a_title := Some ''spice_simulation to spice_file 1''\<rparr>)
     False True
     [Element docutils_title no_attrs False False
        [Text ''spice_simulation to'',
         Element docutils_reference
           (no_attrs\<lparr>a_internal := Some True, a_refuri := Some ''doc.html#f1'',
                     a_anchorname := Some []\<rparr>) False False [Text '' spice_file 1'']],
      Element docutils_section (no_attrs\<lparr>a_ids := [''spice_simulation-content'']\<rparr>)
        False False []]"

text \<open>
  Two generic cross-references to \<open>f1\<close>, the first with text of the author's own, and a
  reference to the simulation block \<open>s2\<close> that displays a given text.
\<close>

definition explicit_xref :: node where
  "explicit_xref = Element sphinx_pending_xref
     (no_attrs\<lparr>a_reftype := Some ''ref'', a_reftarget := Some ''f1'',
               a_refexplicit := Some True\<rparr>)
     False False
     [Element docutils_inline (no_attrs\<lparr>a_classes := [''xref'', ''std'', ''std-ref'']\<rparr>)
        False False [Text ''my own words'']]"

definition implicit_xref :: node where
  "implicit_xref = Element sphinx_pending_xref
     (no_attrs\<lparr>a_reftype := Some ''ref'', a_reftarget := Some ''f1'',
               a_refexplicit := Some False\<rparr>)
     False False
     [Element docutils_inline (no_attrs\<lparr>a_classes := [''xref'', ''std'', ''std-ref'']\<rparr>)
        False False [Text ''f1'']]"

definition link_to_s2 :: "string \<Rightarrow> node" where
  "link_to_s2 txt = Element docutils_reference (no_attrs\<lparr>a_refid := Some ''s2''\<rparr>)
     False False [Element docutils_inline no_attrs False False [Text txt]]"

text \<open>
  A paragraph, and a document in which a gated simulation block opens inside a container
  and closes at the top level: the environment after the two directives, and the tree.
\<close>

definition sample_paragraph :: "string \<Rightarrow> node" where
  "sample_paragraph s = Element docutils_paragraph no_attrs False False [Text s]"

definition env_gated_start :: env where
  "env_gated_start =
     fst (projr (spice_simulationStartDirective_run plain_host (labelled ''g1'' [''f1''])
                   (new_env ''doc'')))"

definition env_gated_end :: env where
  "env_gated_end = fst (spice_simulationEndDirective_run plain_host (marker [] 4) env_gated_start)"

definition split_depth_doc :: node where
  "split_depth_doc = Element docutils_document no_attrs False False
     [Element docutils_container no_attrs False False [objs env_gated_end ! 0],
      objs env_gated_end ! 1]"

section \<open>The structural validator\<close>

lemma findall_SE_le_S: "length (findall_SE s) \<le> count_char (CHR ''S'') s"
  by (induction s rule: findall_SE.induct) (auto simp: count_char_def)

lemma findall_SE_le_E: "length (findall_SE s) \<le> count_char (CHR ''E'') s"
  by (induction s rule: findall_SE.induct) (auto simp: count_char_def)

lemma findall_SE_replicate: "length (findall_SE (concat (replicate n ''SE''))) = n"
  by (induction n) auto

lemma count_S_replicate: "count_char (CHR ''S'') (concat (replicate n ''SE'')) = n"
  by (induction n) (auto simp: count_char_def)

text \<open>
  If every \<open>S\<close> of a string over \<open>S\<close> and \<open>E\<close> starts a match and there are as many \<open>E\<close> as
  \<open>S\<close>, the string is nothing but matches.
\<close>

lemma findall_SE_full:
  "list_all (\<lambda>c. c = CHR ''S'' \<or> c = CHR ''E'') s \<Longrightarrow>
   length (findall_SE s) = count_char (CHR ''S'') s \<Longrightarrow>
   count_char (CHR ''S'') s = count_char (CHR ''E'') s \<Longrightarrow>
   s = concat (replicate (count_char (CHR ''S'') s) ''SE'')"
proof (induction s rule: findall_SE.induct)
  case (1 a b rest)
  show ?case
  proof (cases "a = CHR ''S'' \<and> b = CHR ''E''")
    case True
    with 1 show ?thesis by (auto simp: count_char_def)
  next
    case False
    have le1: "length (findall_SE (b # rest)) \<le> count_char (CHR ''S'') (b # rest)"
      by (rule findall_SE_le_S)
    have le2: "length (findall_SE (b # rest)) \<le> count_char (CHR ''E'') (b # rest)"
      by (rule findall_SE_le_E)
    from False 1 le1 le2 show ?thesis by (auto simp: count_char_def split: if_splits)
  qed
next
  case (2 a)
  then show ?case by (auto simp: count_char_def split: if_splits)
next
  case 3
  then show ?case by (simp add: count_char_def)
qed

lemma count_concat_S:
  "list_all (\<lambda>t. t = ''S'' \<or> t = ''E'') ts \<Longrightarrow>
   count_char (CHR ''S'') (concat ts) = length (filter (\<lambda>t. t = ''S'') ts)"
  by (induction ts) (auto simp: count_char_def)

lemma count_concat_E:
  "list_all (\<lambda>t. t = ''S'' \<or> t = ''E'') ts \<Longrightarrow>
   count_char (CHR ''E'') (concat ts) = length (filter (\<lambda>t. t = ''E'') ts)"
  by (induction ts) (auto simp: count_char_def)

lemma chars_concat:
  "list_all (\<lambda>t. t = ''S'' \<or> t = ''E'') ts \<Longrightarrow>
   list_all (\<lambda>c. c = CHR ''S'' \<or> c = CHR ''E'') (concat ts)"
  by (induction ts) auto

lemma tracked_accept_iff:
  assumes "tracked r" and "length (g_start r) = length (g_end r)"
  shows "length (findall_SE (concat (g_sequence r))) = length (g_start r)
         \<longleftrightarrow> (\<exists>n. concat (g_sequence r) = concat (replicate n ''SE''))"
proof
  assume eq: "length (findall_SE (concat (g_sequence r))) = length (g_start r)"
  let ?s = "concat (g_sequence r)"
  from assms have a: "list_all (\<lambda>c. c = CHR ''S'' \<or> c = CHR ''E'') ?s"
    by (simp add: tracked_def chars_concat)
  from assms have s: "count_char (CHR ''S'') ?s = length (g_start r)"
    by (simp add: tracked_def count_concat_S)
  from assms have e: "count_char (CHR ''E'') ?s = length (g_end r)"
    by (simp add: tracked_def count_concat_E)
  from a eq s e assms(2) have "?s = concat (replicate (count_char (CHR ''S'') ?s) ''SE'')"
    by (intro findall_SE_full) simp_all
  then show "\<exists>n. ?s = concat (replicate n ''SE'')" by blast
next
  assume "\<exists>n. concat (g_sequence r) = concat (replicate n ''SE'')"
  then obtain n where n: "concat (g_sequence r) = concat (replicate n ''SE'')" by blast
  from assms have s: "count_char (CHR ''S'') (concat (g_sequence r)) = length (g_start r)"
    by (simp add: tracked_def count_concat_S)
  with n have "length (g_start r) = n" by (simp add: count_S_replicate)
  with n show "length (findall_SE (concat (g_sequence r))) = length (g_start r)"
    by (simp add: findall_SE_replicate)
qed

text \<open>The records that the gated directives write are tracked.\<close>

lemma empty_record_tracked: "tracked (empty_gated_record t)"
  by (simp add: tracked_def empty_gated_record_def)

lemma record_start_tracked:
  "tracked r \<Longrightarrow>
   tracked (r\<lparr>g_start := g_start r @ [l], g_sequence := g_sequence r @ [''S''],
              g_msg := g_msg r @ [m]\<rparr>)"
  by (simp add: tracked_def)

lemma record_end_tracked:
  "tracked r \<Longrightarrow>
   tracked (r\<lparr>g_end := g_end r @ [l], g_sequence := g_sequence r @ [''E''],
              g_msg := g_msg r @ [m]\<rparr>)"
  by (simp add: tracked_def)

text \<open>
  Claim C1. For the record of a document as the gated directives write it: more starts than
  ends is the missing-end error, fewer starts than ends the missing-start error, and with
  equal counts the check passes exactly when the token sequence is a run of \<open>SE\<close> pairs, and
  is the nested error otherwise. Every failure logs its message and then raises the fatal
  \<open>ExtensionError\<close>.
\<close>

theorem check_structure_sound:
  assumes reg: "registry doc = Some r" and tr: "tracked r"
  shows
    "(length (g_start r) > length (g_end r) \<longrightarrow>
        check_structure doc registry =
          ([missing_end_msg doc (g_type r) (join (newline @ ''  '') (g_msg r))],
           Inl (ExtensionError gated_error_msg)))
   \<and> (length (g_start r) < length (g_end r) \<longrightarrow>
        check_structure doc registry =
          ([missing_start_msg doc (g_type r) (join (newline @ ''  '') (g_msg r))],
           Inl (ExtensionError gated_error_msg)))
   \<and> (length (g_start r) = length (g_end r) \<longrightarrow>
        (if \<exists>n. concat (g_sequence r) = concat (replicate n ''SE'')
         then check_structure doc registry = ([], Inr ())
         else check_structure doc registry =
          ([nested_msg doc (g_type r) (join (newline @ ''  '') (g_msg r))],
           Inl (ExtensionError gated_error_msg))))"
proof (intro conjI impI)
  assume "length (g_end r) < length (g_start r)"
  with reg show "check_structure doc registry =
          ([missing_end_msg doc (g_type r) (join (newline @ ''  '') (g_msg r))],
           Inl (ExtensionError gated_error_msg))"
    by (simp add: check_structure_def Let_def)
next
  assume "length (g_start r) < length (g_end r)"
  with reg show "check_structure doc registry =
          ([missing_start_msg doc (g_type r) (join (newline @ ''  '') (g_msg r))],
           Inl (ExtensionError gated_error_msg))"
    by (simp add: check_structure_def Let_def)
next
  assume eq: "length (g_start r) = length (g_end r)"
  from tracked_accept_iff [OF tr eq] reg eq
  show "if \<exists>n. concat (g_sequence r) = concat (replicate n ''SE'')
         then check_structure doc registry = ([], Inr ())
         else check_structure doc registry =
          ([nested_msg doc (g_type r) (join (newline @ ''  '') (g_msg r))],
           Inl (ExtensionError gated_error_msg))"
    by (simp add: check_structure_def Let_def)
qed

theorem check_structure_sound_witness:
  "[''doc'' \<mapsto> sese_record] ''doc'' = Some sese_record \<and> tracked sese_record
   \<and> length (g_start sese_record) = length (g_end sese_record)
   \<and> check_structure ''doc'' [''doc'' \<mapsto> sese_record] = ([], Inr ())"
proof -
  have reg: "[''doc'' \<mapsto> sese_record] ''doc'' = Some sese_record" by simp
  have tr: "tracked sese_record" by (simp add: tracked_def sese_record_def)
  have eq: "length (g_start sese_record) = length (g_end sese_record)"
    by (simp add: sese_record_def)
  have "concat (g_sequence sese_record) = concat (replicate 2 ''SE'')"
    by (simp add: sese_record_def numeral_2_eq_2)
  then have dec: "\<exists>n. concat (g_sequence sese_record) = concat (replicate n ''SE'')" by blast
  from check_structure_sound [of "[''doc'' \<mapsto> sese_record]" "''doc''" sese_record, OF reg tr] eq dec
  have "check_structure ''doc'' [''doc'' \<mapsto> sese_record] = ([], Inr ())" by simp
  with reg tr eq show ?thesis by blast
qed

text \<open>The five sequences that the specification names.\<close>

lemma check_structure_examples:
  fixes r :: gated_record
  assumes "g_msg r = []" and "g_type r = t"
  shows "g_start r = [1] \<Longrightarrow> g_end r = [2] \<Longrightarrow> g_sequence r = [''S'', ''E''] \<Longrightarrow>
           check_structure doc [doc \<mapsto> r] = ([], Inr ())"
    and "g_start r = [1, 3] \<Longrightarrow> g_end r = [2, 4] \<Longrightarrow> g_sequence r = [''S'', ''E'', ''S'', ''E''] \<Longrightarrow>
           check_structure doc [doc \<mapsto> r] = ([], Inr ())"
    and "g_start r = [1, 2] \<Longrightarrow> g_end r = [3, 4] \<Longrightarrow> g_sequence r = [''S'', ''S'', ''E'', ''E''] \<Longrightarrow>
           check_structure doc [doc \<mapsto> r] =
             ([nested_msg doc t []], Inl (ExtensionError gated_error_msg))"
    and "g_start r = [1] \<Longrightarrow> g_end r = [2, 3] \<Longrightarrow> g_sequence r = [''S'', ''E'', ''E''] \<Longrightarrow>
           check_structure doc [doc \<mapsto> r] =
             ([missing_start_msg doc t []], Inl (ExtensionError gated_error_msg))"
    and "g_start r = [1, 2] \<Longrightarrow> g_end r = [3] \<Longrightarrow> g_sequence r = [''S'', ''S'', ''E''] \<Longrightarrow>
           check_structure doc [doc \<mapsto> r] =
             ([missing_end_msg doc t []], Inl (ExtensionError gated_error_msg))"
  using assms by (simp_all add: check_structure_def Let_def)

section \<open>The directives and the registries\<close>

subsection \<open>What each helper leaves alone\<close>

lemma str_int_digit [simp]:
  "str_int 1 = ''1''" "str_int 2 = ''2''" "str_int 3 = ''3''" "str_int 4 = ''4''"
  by (simp_all add: str_int_def str_nat.simps digit_char_def)

lemma the_registry_update [simp]:
  "the_registry (e\<lparr>serialno := n\<rparr>) = the_registry e"
  "the_registry (e\<lparr>warnings := w\<rparr>) = the_registry e"
  "the_registry (e\<lparr>objs := ob\<rparr>) = the_registry e"
  by (simp_all add: the_registry_def)

lemma init_registry_frame [simp]:
  "sphinx_spice_file_gated_registry (init_registry e) = sphinx_spice_file_gated_registry e"
  "docname (init_registry e) = docname e"
  "objs (init_registry e) = objs e"
  "warnings (init_registry e) = warnings e"
  "serialno (init_registry e) = serialno e"
  "hide_spice_simulations (init_registry e) = hide_spice_simulations e"
  "the_registry (init_registry e) = the_registry e"
  by (simp_all add: init_registry_def the_registry_def split: option.splits)

lemma init_registry_present:
  "the_registry e l = Some x \<Longrightarrow> init_registry (e\<lparr>serialno := n\<rparr>) = e\<lparr>serialno := n\<rparr>"
  by (simp add: init_registry_def the_registry_def split: option.splits)

lemma duplicate_labels_frame [simp]:
  "sphinx_spice_file_gated_registry (fst (duplicate_labels h l e)) =
     sphinx_spice_file_gated_registry e"
  "docname (fst (duplicate_labels h l e)) = docname e"
  "objs (fst (duplicate_labels h l e)) = objs e"
  "serialno (fst (duplicate_labels h l e)) = serialno e"
  "sphinx_spice_file_registry (fst (duplicate_labels h l e)) = sphinx_spice_file_registry e"
  "the_registry (fst (duplicate_labels h l e)) = the_registry e"
  by (simp_all add: duplicate_labels_def the_registry_def Let_def split: option.splits)

lemma new_object_frame [simp]:
  "sphinx_spice_file_gated_registry (fst (new_object n e)) = sphinx_spice_file_gated_registry e"
  "docname (fst (new_object n e)) = docname e"
  "warnings (fst (new_object n e)) = warnings e"
  "serialno (fst (new_object n e)) = serialno e"
  "sphinx_spice_file_registry (fst (new_object n e)) = sphinx_spice_file_registry e"
  "the_registry (fst (new_object n e)) = the_registry e"
  "objs (fst (new_object n e)) = objs e @ [n]"
  "snd (new_object n e) = length (objs e)"
  by (simp_all add: new_object_def the_registry_def)

lemma deepcopy_frame [simp]:
  "sphinx_spice_file_gated_registry (fst (deepcopy a e)) = sphinx_spice_file_gated_registry e"
  "docname (fst (deepcopy a e)) = docname e"
  "warnings (fst (deepcopy a e)) = warnings e"
  "serialno (fst (deepcopy a e)) = serialno e"
  "sphinx_spice_file_registry (fst (deepcopy a e)) = sphinx_spice_file_registry e"
  "the_registry (fst (deepcopy a e)) = the_registry e"
  "objs (fst (deepcopy a e)) = objs e @ [objs e ! a]"
  "snd (deepcopy a e) = length (objs e)"
  by (simp_all add: deepcopy_def)

lemma set_registry_frame [simp]:
  "sphinx_spice_file_gated_registry (set_registry l x e) = sphinx_spice_file_gated_registry e"
  "docname (set_registry l x e) = docname e"
  "warnings (set_registry l x e) = warnings e"
  "serialno (set_registry l x e) = serialno e"
  "objs (set_registry l x e) = objs e"
  "the_registry (set_registry l x e) = (the_registry e)(l \<mapsto> x)"
  by (simp_all add: set_registry_def the_registry_def)

lemma hide_frame [simp]:
  "hide_spice_simulations (set_registry l x e) = hide_spice_simulations e"
  "hide_spice_simulations (fst (new_object n e)) = hide_spice_simulations e"
  "hide_spice_simulations (fst (deepcopy a e)) = hide_spice_simulations e"
  by (simp_all add: set_registry_def new_object_def deepcopy_def)

lemma duplicate_labels_new:
  "\<not> (l \<noteq> [] \<and> the_registry e l \<noteq> None) \<Longrightarrow> duplicate_labels h l e = (e, False)"
  by (auto simp add: duplicate_labels_def Let_def split: option.splits)

lemma duplicate_labels_dup:
  "l \<noteq> [] \<Longrightarrow> the_registry e l = Some other \<Longrightarrow>
   duplicate_labels h l e =
     (e\<lparr>warnings := warnings e @
         [(duplicate_label_msg l (doc2path h (e_docname other)),
           slice_to (doc2path h (docname e)) (rfind_dot (doc2path h (docname e))))]\<rparr>, True)"
  by (simp add: duplicate_labels_def Let_def)

lemma directive_label_frame [simp]:
  "directive_label k d (init_registry e) n = directive_label k d e n"
  "directive_label k d (e\<lparr>serialno := m\<rparr>) n = directive_label k d e n"
  by (simp_all add: directive_label_def Let_def)

lemma directive_label_nonempty: "directive_label k d e n \<noteq> []"
  by (simp add: directive_label_def Let_def)

lemma run_file_frame:
  "sphinx_spice_file_gated_registry (fst (spice_file_run name h d e)) =
     sphinx_spice_file_gated_registry e"
  "docname (fst (spice_file_run name h d e)) = docname e"
  by (simp_all add: spice_file_run_def Let_def split_beta split: bool.splits)

lemma run_simulation_frame:
  assumes "spice_simulation_run name c h d e = Inr (e', ns)"
  shows "sphinx_spice_file_gated_registry e' = sphinx_spice_file_gated_registry e"
    and "docname e' = docname e"
  using assms
  by (auto simp add: spice_simulation_run_def Let_def split_beta
      split: list.splits if_splits bool.splits)

lemma simulation_run_returns:
  "d_arguments d \<noteq> [] \<Longrightarrow> \<exists>e' ns. spice_simulation_run name c h d e = Inr (e', ns)"
  by (auto simp add: spice_simulation_run_def Let_def split_beta split: list.splits bool.splits)

subsection \<open>The two outcomes of a directive\<close>

lemma file_run_duplicate:
  assumes "the_registry e (directive_label ''spice_file'' d e (serialno e)) = Some other"
  shows "spice_file_run name h d e =
     ((init_registry (e\<lparr>serialno := serialno e + 1\<rparr>))
        \<lparr>warnings := warnings e @
           [(duplicate_label_msg (directive_label ''spice_file'' d e (serialno e))
               (doc2path h (e_docname other)),
             slice_to (doc2path h (docname e)) (rfind_dot (doc2path h (docname e))))]\<rparr>, [])"
proof -
  let ?e1 = "init_registry (e\<lparr>serialno := Suc (serialno e)\<rparr>)"
  let ?l = "directive_label ''spice_file'' d e (serialno e)"
  have r: "the_registry ?e1 ?l = Some other"
    using assms by simp
  show ?thesis
    by (simp add: spice_file_run_def Let_def
        duplicate_labels_dup [OF directive_label_nonempty r])
qed

lemma simulation_run_duplicate:
  assumes "the_registry e (directive_label ''spice_simulation'' d e (serialno e)) = Some other"
    and "d_arguments d \<noteq> []" and "\<not> hide_spice_simulations e"
  shows "spice_simulation_run name c h d e =
     Inr ((init_registry (e\<lparr>serialno := serialno e + 1\<rparr>))
        \<lparr>warnings := warnings e @
           [(duplicate_label_msg (directive_label ''spice_simulation'' d e (serialno e))
               (doc2path h (e_docname other)),
             slice_to (doc2path h (docname e)) (rfind_dot (doc2path h (docname e))))]\<rparr>, [])"
proof -
  let ?e1 = "init_registry (e\<lparr>serialno := Suc (serialno e)\<rparr>)"
  let ?l = "directive_label ''spice_simulation'' d e (serialno e)"
  have r: "the_registry ?e1 ?l = Some other"
    using assms(1) by simp
  from assms(2) obtain t ts where a: "d_arguments d = t # ts" by (cases "d_arguments d") auto
  show ?thesis
    using assms(3)
    by (simp add: spice_simulation_run_def Let_def a
        duplicate_labels_dup [OF directive_label_nonempty r])
qed

lemma file_run_new:
  assumes "the_registry e (directive_label ''spice_file'' d e (serialno e)) = None"
  shows "spice_file_run name h d e =
    (let label = directive_label ''spice_file'' d e (serialno e);
         node = construct_spice_file name h d (docname e) (serialno e) label;
         e1 = init_registry (e\<lparr>serialno := Suc (serialno e)\<rparr>)
     in (set_registry label
           \<lparr>e_type = name, e_docname = docname e, e_node = Suc (length (objs e))\<rparr>
           (e1\<lparr>objs := objs e @ [node, node]\<rparr>),
         if opt_hidden (d_options d) then [] else [length (objs e)]))"
proof -
  let ?e1 = "init_registry (e\<lparr>serialno := Suc (serialno e)\<rparr>)"
  let ?l = "directive_label ''spice_file'' d e (serialno e)"
  have r: "\<not> (?l \<noteq> [] \<and> the_registry ?e1 ?l \<noteq> None)"
    using assms by simp
  show ?thesis
    by (simp add: spice_file_run_def Let_def duplicate_labels_new [OF r]
        new_object_def deepcopy_def)
qed

lemma simulation_run_new:
  assumes "the_registry e (directive_label ''spice_simulation'' d e (serialno e)) = None"
    and "d_arguments d = t # ts" and "\<not> hide_spice_simulations e"
  shows "spice_simulation_run name c h d e =
    (let label = directive_label ''spice_simulation'' d e (serialno e);
         node = construct_spice_simulation name c h d t (docname e) (serialno e) label;
         e1 = init_registry (e\<lparr>serialno := Suc (serialno e)\<rparr>)
     in Inr (set_registry label
               \<lparr>e_type = name, e_docname = docname e, e_node = length (objs e)\<rparr>
               (e1\<lparr>objs := objs e @ [node]\<rparr>),
             if opt_hidden (d_options d) then [] else [length (objs e)]))"
proof -
  let ?e1 = "init_registry (e\<lparr>serialno := Suc (serialno e)\<rparr>)"
  let ?l = "directive_label ''spice_simulation'' d e (serialno e)"
  have r: "\<not> (?l \<noteq> [] \<and> the_registry ?e1 ?l \<noteq> None)"
    using assms by simp
  show ?thesis using assms(2,3)
    by (simp add: spice_simulation_run_def Let_def duplicate_labels_new [OF r] new_object_def)
qed

lemma new_env_registry: "the_registry (new_env doc) l = None"
  by (simp add: new_env_def the_registry_def)

lemma labelled_label: "directive_label k (labelled l a) e n = (if l \<noteq> [] then l
    else docname e @ ''-'' @ k @ ''-'' @ str_nat n)"
  by (simp add: directive_label_def labelled_def no_options_def)

subsection \<open>The gated sequence of a document\<close>

lemma doc_sequence_cong:
  "sphinx_spice_file_gated_registry e' = sphinx_spice_file_gated_registry e \<Longrightarrow>
   docname e' = docname e \<Longrightarrow> doc_sequence e' = doc_sequence e"
  by (simp add: doc_sequence_def the_gated_registry_def)

lemma doc_record_cong:
  "sphinx_spice_file_gated_registry e' = sphinx_spice_file_gated_registry e \<Longrightarrow>
   docname e' = docname e \<Longrightarrow> doc_record e' = doc_record e"
  by (simp add: doc_record_def the_gated_registry_def)

lemma record_start_sequence:
  "doc_sequence (record_start t n l e) = doc_sequence e @ [''S'']"
  by (simp add: doc_sequence_def record_start_def Let_def set_gated_record_def
      the_gated_registry_def gated_record_for_def empty_gated_record_def split: option.splits)

lemma record_end_sequence:
  "doc_sequence (record_end t n l e) = doc_sequence e @ [''E'']"
  by (simp add: doc_sequence_def record_end_def Let_def set_gated_record_def
      the_gated_registry_def gated_record_for_def empty_gated_record_def split: option.splits)

lemma record_start_record:
  "doc_record (record_start t n l e) =
     Some (case doc_record e of
        None \<Rightarrow> \<lparr>g_start = [l], g_end = [], g_sequence = [''S''], g_msg = [line_msg n l],
                  g_type = t\<rparr>
      | Some r \<Rightarrow> r\<lparr>g_start := g_start r @ [l], g_sequence := g_sequence r @ [''S''],
                     g_msg := g_msg r @ [line_msg n l]\<rparr>)"
  by (simp add: doc_record_def record_start_def Let_def set_gated_record_def
      the_gated_registry_def gated_record_for_def empty_gated_record_def split: option.splits)

lemma record_end_record:
  "doc_record (record_end t n l e) =
     Some (case doc_record e of
        None \<Rightarrow> \<lparr>g_start = [], g_end = [l], g_sequence = [''E''], g_msg = [line_msg n l],
                  g_type = t\<rparr>
      | Some r \<Rightarrow> r\<lparr>g_end := g_end r @ [l], g_sequence := g_sequence r @ [''E''],
                     g_msg := g_msg r @ [line_msg n l]\<rparr>)"
  by (simp add: doc_record_def record_end_def Let_def set_gated_record_def
      the_gated_registry_def gated_record_for_def empty_gated_record_def split: option.splits)

lemma file_start_record:
  "doc_record (fst (spice_fileStartDirective_run h d e)) =
   doc_record (record_start ''spice_file'' ''spice_file-start'' (d_lineno d) e)"
  unfolding spice_fileStartDirective_run_def
  by (rule doc_record_cong) (simp_all add: run_file_frame)

lemma simulation_start_record:
  assumes "d_arguments d \<noteq> []"
  shows "doc_record (fst (projr (spice_simulationStartDirective_run h d e))) =
   doc_record (record_start ''spice_simulation'' ''spice_simulation-start'' (d_lineno d) e)"
proof -
  let ?e1 = "record_start ''spice_simulation'' ''spice_simulation-start'' (d_lineno d) e"
  from simulation_run_returns [OF assms] obtain e' ns where
    r: "spice_simulation_run ''spice_simulation-start'' spice_simulation_start_node h d ?e1
          = Inr (e', ns)"
    by blast
  from run_simulation_frame [OF r] have "doc_record e' = doc_record ?e1"
    by (intro doc_record_cong)
  with r show ?thesis by (simp add: spice_simulationStartDirective_run_def)
qed

lemma file_end_record:
  "doc_record (fst (spice_fileEndDirective_run h d e)) =
   doc_record (record_end ''spice_file'' ''spice_file-end'' (d_lineno d) e)"
  unfolding spice_fileEndDirective_run_def
  by (simp add: Let_def split_beta doc_record_cong [of "fst (new_object _ _)"])

lemma simulation_end_record:
  "doc_record (fst (spice_simulationEndDirective_run h d e)) =
   doc_record (record_end ''spice_simulation'' ''spice_simulation-end'' (d_lineno d) e)"
  unfolding spice_simulationEndDirective_run_def
  by (simp add: Let_def split_beta doc_record_cong [of "fst (new_object _ _)"])

lemma marker_fields [simp]:
  "d_lineno (marker a l) = l" "d_arguments (marker a l) = a"
  by (simp_all add: marker_def)

lemma after_file_start_record:
  "doc_record after_file_start =
     Some \<lparr>g_start = [1], g_end = [], g_sequence = [''S''],
       g_msg = [''spice_file-start at line: 1''], g_type = ''spice_file''\<rparr>"
proof -
  have "doc_record (new_env ''doc'') = None"
    by (simp add: doc_record_def new_env_def the_gated_registry_def)
  then show ?thesis
    by (simp add: after_file_start_def file_start_record record_start_record line_msg_def)
qed

lemma after_simulation_start_record:
  "doc_record after_simulation_start =
     Some \<lparr>g_start = [1, 2], g_end = [], g_sequence = [''S'', ''S''],
       g_msg = [''spice_file-start at line: 1'', ''spice_simulation-start at line: 2''],
       g_type = ''spice_file''\<rparr>"
  by (simp add: after_simulation_start_def simulation_start_record record_start_record
      after_file_start_record line_msg_def)

lemma after_file_end_record:
  "doc_record after_file_end =
     Some \<lparr>g_start = [1, 2], g_end = [3], g_sequence = [''S'', ''S'', ''E''],
       g_msg = [''spice_file-start at line: 1'', ''spice_simulation-start at line: 2'',
                ''spice_file-end at line: 3''],
       g_type = ''spice_file''\<rparr>"
  by (simp add: after_file_end_def file_end_record record_end_record
      after_simulation_start_record line_msg_def)

lemma interleaved_record:
  "doc_record interleaved_env =
     Some \<lparr>g_start = [1, 2], g_end = [3, 4], g_sequence = [''S'', ''S'', ''E'', ''E''],
       g_msg = [''spice_file-start at line: 1'', ''spice_simulation-start at line: 2'',
                ''spice_file-end at line: 3'', ''spice_simulation-end at line: 4''],
       g_type = ''spice_file''\<rparr>"
  by (simp add: interleaved_env_def simulation_end_record record_end_record
      after_file_end_record line_msg_def)

lemma apply_by_record:
  "CheckGatedDirectives_apply e =
     (case doc_record e of None \<Rightarrow> ([], Inr ())
      | Some r \<Rightarrow> check_structure (docname e) [docname e \<mapsto> r])"
  by (simp add: CheckGatedDirectives_apply_def doc_record_def the_gated_registry_def
      check_structure_def split: option.splits)

text \<open>
  Claim C6, as stated, fails. A file start, a simulation start, a file end and a simulation
  end in one document are recorded as the one sequence \<open>S S E E\<close>, which the validator
  rejects as nested: the two kinds are not tracked apart.
\<close>

theorem interleaved_kinds_rejected:
  "doc_sequence interleaved_env = [''S'', ''S'', ''E'', ''E'']
   \<and> snd (CheckGatedDirectives_apply interleaved_env) = Inl (ExtensionError gated_error_msg)"
  by (simp add: apply_by_record interleaved_record check_structure_def Let_def
      doc_sequence_def doc_record_def [symmetric])

text \<open>
  Claim C6, amended. The gated registry holds one token sequence for each document, shared
  by both kinds: a start directive of either kind appends \<open>S\<close> to the sequence of the
  current document and an end directive of either kind appends \<open>E\<close> to it, and it is this
  one sequence that the validator checks.
\<close>

theorem gated_sequence_shared:
  "doc_sequence (fst (spice_fileStartDirective_run h d e)) = doc_sequence e @ [''S'']
   \<and> (\<forall>e' ns. spice_simulationStartDirective_run h d e = Inr (e', ns) \<longrightarrow>
         doc_sequence e' = doc_sequence e @ [''S''])
   \<and> doc_sequence (fst (spice_fileEndDirective_run h d e)) = doc_sequence e @ [''E'']
   \<and> doc_sequence (fst (spice_simulationEndDirective_run h d e)) = doc_sequence e @ [''E'']"
proof (intro conjI allI impI)
  show "doc_sequence (fst (spice_fileStartDirective_run h d e)) = doc_sequence e @ [''S'']"
    unfolding spice_fileStartDirective_run_def
    by (simp add: doc_sequence_cong [OF run_file_frame] record_start_sequence)
next
  fix e' ns
  assume "spice_simulationStartDirective_run h d e = Inr (e', ns)"
  then have "doc_sequence e' =
      doc_sequence (record_start ''spice_simulation'' ''spice_simulation-start'' (d_lineno d) e)"
    unfolding spice_simulationStartDirective_run_def
    by (intro doc_sequence_cong) (simp_all add: run_simulation_frame)
  then show "doc_sequence e' = doc_sequence e @ [''S'']"
    by (simp add: record_start_sequence)
next
  show "doc_sequence (fst (spice_fileEndDirective_run h d e)) = doc_sequence e @ [''E'']"
    unfolding spice_fileEndDirective_run_def
    by (simp add: Let_def split_beta doc_sequence_cong [of "fst (new_object _ _)"]
        record_end_sequence)
next
  show "doc_sequence (fst (spice_simulationEndDirective_run h d e)) = doc_sequence e @ [''E'']"
    unfolding spice_simulationEndDirective_run_def
    by (simp add: Let_def split_beta doc_sequence_cong [of "fst (new_object _ _)"]
        record_end_sequence)
qed

theorem gated_sequence_shared_witness:
  "(\<exists>e' ns. spice_simulationStartDirective_run plain_host (marker [''f''] 2) after_file_start
        = Inr (e', ns) \<and> doc_sequence e' = [''S'', ''S''])
   \<and> doc_sequence after_file_start = [''S'']"
proof -
  have s: "doc_sequence after_file_start = [''S'']"
    using after_file_start_record by (simp add: doc_sequence_def doc_record_def)
  obtain e' ns where r: "spice_simulationStartDirective_run plain_host (marker [''f''] 2)
      after_file_start = Inr (e', ns)"
    using simulation_run_returns [of "marker [''f''] 2"]
    unfolding spice_simulationStartDirective_run_def by fastforce
  from gated_sequence_shared [of plain_host "marker [''f''] 2" after_file_start] r
  have "doc_sequence e' = doc_sequence after_file_start @ [''S'']" by blast
  with r s show ?thesis by simp
qed

subsection \<open>Duplicate labels\<close>

text \<open>
  Claim C7. A file directive, and a simulation directive that the configuration does not
  hide, whose label is already in the registry returns no node, leaves the registry and
  the stored nodes as they are, gives one warning with the message that names the label
  and the path of the other instance, located at the path of the current document, and
  returns normally.
\<close>

theorem duplicate_label_first_wins:
  "(the_registry e (directive_label ''spice_file'' d e (serialno e)) = Some other \<longrightarrow>
      snd (spice_file_run name h d e) = []
      \<and> sphinx_spice_file_registry (fst (spice_file_run name h d e))
          = sphinx_spice_file_registry e
      \<and> objs (fst (spice_file_run name h d e)) = objs e
      \<and> warnings (fst (spice_file_run name h d e)) = warnings e @
           [(duplicate_label_msg (directive_label ''spice_file'' d e (serialno e))
               (doc2path h (e_docname other)),
             slice_to (doc2path h (docname e)) (rfind_dot (doc2path h (docname e))))])
   \<and> (the_registry e (directive_label ''spice_simulation'' d e (serialno e)) = Some other
        \<and> d_arguments d \<noteq> [] \<and> \<not> hide_spice_simulations e \<longrightarrow>
      (\<exists>e'. spice_simulation_run sname c h d e = Inr (e', [])
        \<and> sphinx_spice_file_registry e' = sphinx_spice_file_registry e
        \<and> objs e' = objs e
        \<and> warnings e' = warnings e @
           [(duplicate_label_msg (directive_label ''spice_simulation'' d e (serialno e))
               (doc2path h (e_docname other)),
             slice_to (doc2path h (docname e)) (rfind_dot (doc2path h (docname e))))]))"
proof (intro conjI impI)
  assume a: "the_registry e (directive_label ''spice_file'' d e (serialno e)) = Some other"
  note r = file_run_duplicate [OF a, of name h] init_registry_present [OF a]
  show "snd (spice_file_run name h d e) = []" by (simp add: r)
  show "sphinx_spice_file_registry (fst (spice_file_run name h d e))
          = sphinx_spice_file_registry e"
    by (simp add: r)
  show "objs (fst (spice_file_run name h d e)) = objs e" by (simp add: r)
  show "warnings (fst (spice_file_run name h d e)) = warnings e @
           [(duplicate_label_msg (directive_label ''spice_file'' d e (serialno e))
               (doc2path h (e_docname other)),
             slice_to (doc2path h (docname e)) (rfind_dot (doc2path h (docname e))))]"
    by (simp add: r)
next
  assume "the_registry e (directive_label ''spice_simulation'' d e (serialno e)) = Some other
        \<and> d_arguments d \<noteq> [] \<and> \<not> hide_spice_simulations e"
  then have a: "the_registry e (directive_label ''spice_simulation'' d e (serialno e))
      = Some other"
    and b: "d_arguments d \<noteq> []" and c: "\<not> hide_spice_simulations e" by simp_all
  note r = simulation_run_duplicate [OF a b c, of sname c h] init_registry_present [OF a]
  show "\<exists>e'. spice_simulation_run sname c h d e = Inr (e', [])
        \<and> sphinx_spice_file_registry e' = sphinx_spice_file_registry e
        \<and> objs e' = objs e
        \<and> warnings e' = warnings e @
           [(duplicate_label_msg (directive_label ''spice_simulation'' d e (serialno e))
               (doc2path h (e_docname other)),
             slice_to (doc2path h (docname e)) (rfind_dot (doc2path h (docname e))))]"
    by (simp add: r)
qed

lemma env_with_x_eq:
  "env_with_x = set_registry ''x'' \<lparr>e_type = ''spice_file'', e_docname = ''doc'', e_node = 1\<rparr>
     ((init_registry ((new_env ''doc'')\<lparr>serialno := 1\<rparr>))
        \<lparr>objs := [construct_spice_file ''spice_file'' plain_host (labelled ''x'' []) ''doc'' 0 ''x'',
                  construct_spice_file ''spice_file'' plain_host (labelled ''x'' []) ''doc'' 0 ''x'']\<rparr>)"
proof -
  have n: "the_registry (new_env ''doc'')
      (directive_label ''spice_file'' (labelled ''x'' []) (new_env ''doc'') (serialno (new_env ''doc''))) = None"
    by (rule new_env_registry)
  have o: "objs (new_env ''doc'') = []" "serialno (new_env ''doc'') = 0" "docname (new_env ''doc'') = ''doc''"
      "\<not> opt_hidden (d_options (labelled ''x'' []))"
    by (simp_all add: new_env_def labelled_def no_options_def)
  show ?thesis
    unfolding env_with_x_def spice_fileDirective_run_def file_run_new [OF n]
    by (simp add: Let_def labelled_label o)
qed

lemma env_with_x_fields:
  "the_registry env_with_x ''x'' = Some \<lparr>e_type = ''spice_file'', e_docname = ''doc'', e_node = 1\<rparr>"
  "warnings env_with_x = []" "docname env_with_x = ''doc''" "\<not> hide_spice_simulations env_with_x"
  by (simp_all add: env_with_x_eq new_env_def)

lemma doc_path: "slice_to (doc2path plain_host ''doc'') (rfind_dot (doc2path plain_host ''doc'')) = ''doc''"
  by (simp add: plain_host_def rfind_dot_def slice_to_def)

text \<open>The theorem at a second directive that uses the registered label \<open>x\<close>.\<close>

theorem duplicate_label_first_wins_witness:
  "the_registry env_with_x
      (directive_label ''spice_file'' (labelled ''x'' [''f1'']) env_with_x (serialno env_with_x))
     = Some \<lparr>e_type = ''spice_file'', e_docname = ''doc'', e_node = 1\<rparr>
   \<and> snd (spice_file_run ''spice_file'' plain_host (labelled ''x'' [''f1'']) env_with_x) = []
   \<and> warnings (fst (spice_file_run ''spice_file'' plain_host (labelled ''x'' [''f1'']) env_with_x))
       = [(''duplicate label: x; other instance in doc.md'', ''doc'')]
   \<and> (\<exists>e'. spice_simulation_run ''spice_simulation'' spice_simulation_node plain_host
              (labelled ''x'' [''f1'']) env_with_x = Inr (e', [])
         \<and> warnings e' = [(''duplicate label: x; other instance in doc.md'', ''doc'')])"
proof -
  let ?d = "labelled ''x'' [''f1'']"
  let ?o = "\<lparr>e_type = ''spice_file'', e_docname = ''doc'', e_node = 1\<rparr>"
  have a: "the_registry env_with_x (directive_label ''spice_file'' ?d env_with_x (serialno env_with_x)) = Some ?o"
    by (simp add: labelled_label env_with_x_fields)
  have b: "the_registry env_with_x (directive_label ''spice_simulation'' ?d env_with_x (serialno env_with_x)) = Some ?o"
    by (simp add: labelled_label env_with_x_fields)
  have c: "d_arguments ?d \<noteq> []" by (simp add: labelled_def)
  have m: "duplicate_label_msg ''x'' (doc2path plain_host ''doc'') = ''duplicate label: x; other instance in doc.md''"
    by (simp add: duplicate_label_msg_def plain_host_def)
  note t = duplicate_label_first_wins [where e = env_with_x and d = ?d and other = ?o
      and name = "''spice_file''" and h = plain_host and sname = "''spice_simulation''"
      and c = spice_simulation_node]
  from t a have 1: "snd (spice_file_run ''spice_file'' plain_host ?d env_with_x) = []"
    by blast
  from t a have 2: "warnings (fst (spice_file_run ''spice_file'' plain_host ?d env_with_x))
       = [(''duplicate label: x; other instance in doc.md'', ''doc'')]"
    by (simp add: labelled_label env_with_x_fields doc_path m)
  from t b c env_with_x_fields(4)
  have 3: "\<exists>e'. spice_simulation_run ''spice_simulation'' spice_simulation_node plain_host
              ?d env_with_x = Inr (e', [])
         \<and> warnings e' = [(''duplicate label: x; other instance in doc.md'', ''doc'')]"
    by (auto simp add: labelled_label env_with_x_fields doc_path m)
  from a 1 2 3 show ?thesis by blast
qed

subsection \<open>What the registry stores\<close>

text \<open>
  A file block is registered as a copy: a later change of the node that went into the tree
  does not reach the node that the registry holds.
\<close>

lemma file_registry_snapshot:
  assumes "the_registry e (directive_label ''spice_file'' d e (serialno e)) = None"
    and "spice_file_run name h d e = (e', [live])"
  shows "registry_node (mutate live f e') (directive_label ''spice_file'' d e (serialno e)) =
         registry_node e' (directive_label ''spice_file'' d e (serialno e))"
  using assms(2) unfolding file_run_new [OF assms(1)]
  by (auto simp add: Let_def registry_node_def mutate_def nth_append split: if_splits)

text \<open>
  Claim C4 at a simulation block. The directive with label \<open>s1\<close> returns the node at
  address 0 and registers that same address: the registry holds the live node, not a copy,
  and a change of the live node (here of its \<open>resolved_title\<close> flag) changes the node that
  the registry holds.
\<close>

theorem simulation_registry_aliases_live_node:
  "snd (projr (spice_simulationDirective_run plain_host (labelled ''s1'' [''f1''])
                 (new_env ''doc''))) = [0]
   \<and> map_option e_node (the_registry env_with_simulation ''s1'') = Some 0
   \<and> registry_node (mutate 0 (set_resolved_title True) env_with_simulation) ''s1''
        \<noteq> registry_node env_with_simulation ''s1''"
proof -
  have n: "the_registry (new_env ''doc'')
      (directive_label ''spice_simulation'' (labelled ''s1'' [''f1'']) (new_env ''doc'')
         (serialno (new_env ''doc''))) = None"
    by (rule new_env_registry)
  have a: "d_arguments (labelled ''s1'' [''f1'']) = ''f1'' # []" by (simp add: labelled_def)
  have h: "\<not> hide_spice_simulations (new_env ''doc'')" by (simp add: new_env_def)
  note r = simulation_run_new [OF n a h, of "''spice_simulation''" spice_simulation_node
      plain_host]
  have o: "objs (new_env ''doc'') = []" "\<not> opt_hidden (d_options (labelled ''s1'' [''f1'']))"
    by (simp_all add: new_env_def labelled_def no_options_def)
  show ?thesis
    unfolding env_with_simulation_def spice_simulationDirective_run_def r
    by (simp add: Let_def labelled_label o registry_node_def mutate_def
        construct_spice_simulation_def)
qed

section \<open>The post-transforms: titles and references\<close>

lemma resolve_title_again:
  "resolve_title ap n = Inr n' \<Longrightarrow> resolve_title ap n' = Inr n'"
proof (induction ap n rule: resolve_title.induct)
  case (1 ap s)
  then show ?case by simp
next
  case (2 ap t a g r)
  then show ?case by simp
next
  case (3 ap t a g r title_node rest)
  show ?case
  proof (cases "is_a spice_file_title title_node")
    case False
    with 3 show ?thesis by auto
  next
    case True
    with 3 obtain ua ucs where
      "n' = Element t a g True (Element docutils_title ua False False ucs # rest)"
      by (auto simp add: Let_def new_element_def split: if_splits sum.splits list.splits)
    then show ?thesis by simp
  qed
qed

lemma resolve_simulation_again:
  "resolve_spice_simulation_title ap e n f = Inr n' \<Longrightarrow>
   resolve_spice_simulation_title ap e n' f = Inr n'"
proof (induction ap e n f rule: resolve_spice_simulation_title.induct)
  case (1 ap e t a g r title_node rest ft fa fg fr file_title frest)
  show ?case
  proof (cases "is_a spice_simulation_title title_node")
    case False
    with 1 show ?thesis by auto
  next
    case True
    with 1 obtain ua ucs b where "n' = Element t b g True (Element docutils_title ua False False ucs # rest)"
      by (auto simp add: Let_def split: if_splits sum.splits list.splits option.splits)
    then show ?thesis by simp
  qed
qed simp_all

text \<open>
  Claim C9. A second run of either title resolver on a node that it has resolved returns
  that node as it is: the same title, child for child, and so the same title text.
\<close>

theorem title_resolution_idempotent:
  "(resolve_title ap n = Inr n' \<longrightarrow> resolve_title ap n' = Inr n')
   \<and> (resolve_spice_simulation_title ap e m f = Inr m' \<longrightarrow>
        resolve_spice_simulation_title ap e m' f = Inr m')"
  using resolve_title_again resolve_simulation_again by blast

text \<open>
  Claim C10. The early pass returns a \<open>pending_xref\<close> node with explicit text exactly as it
  found it, whatever its target: the reference type and the inline child are the same.
\<close>

theorem explicit_reference_unchanged:
  "a_refexplicit a = Some True \<Longrightarrow>
   update_reference e (Element t a g r cs) = Inr (Element t a g r cs)"
  by (simp split: option.splits)

lemma join_empty [simp]: "join [] xs = concat xs"
  by (induction xs rule: induct_list012) auto

lemma resolve_simulation_composed:
  assumes "is_a spice_simulation_title title_node" and "a_title ta = Some entry"
    and "kids ftitle \<noteq> []" and "a_label fa \<noteq> None"
  shows "\<exists>resolved. resolve_spice_simulation_title ap e
            (Element spice_simulation_node ta tg tr (title_node # trest))
            (Element ft fa fg fr (ftitle # frest)) = Inr resolved
         \<and> resolved_title resolved
         \<and> (\<exists>u us. kids resolved = u # us \<and> astext u =
               composed_title_text ap (Element spice_simulation_node ta tg tr (title_node # trest))
                 (Element ft fa fg fr (ftitle # frest)))"
proof -
  from assms(3) obtain ft0 fts where k: "kids ftitle = ft0 # fts" by (cases "kids ftitle") auto
  from assms(4) obtain l where l: "a_label fa = Some l" by auto
  show ?thesis
    using assms(1,2) k l
    by (simp add: Let_def composed_title_text_def)
qed

text \<open>
  Claim C8. For a reference whose \<open>refid\<close> the registry maps to a simulation node, the late
  pass replaces the children of the reference's first child by one text: the text of the
  simulation's title if the simulation is marked resolved; and if it is not, its title is
  resolved first, on the node that the registry holds, and the text is the composed title,
  given that the simulation still has its placeholder title and that its target is a
  registered file block with a title text and a label.
\<close>

theorem link_text_composed:
  assumes "a_refid a = Some refid" and "the_registry e refid = Some target"
    and "objs e ! e_node target = Element spice_simulation_node ta tg tr (title_node # trest)"
  shows "(tr \<longrightarrow>
           resolve_link_text ap e (Element t a g r (Element it ia ig ir ics # rest)) =
             Inr (e, Element t a g r (Element it ia ig ir [Text (astext title_node)] # rest)))
       \<and> (\<not> tr \<and> is_a spice_simulation_title title_node \<and> a_title ta = Some entry
            \<and> a_target_label ta = Some fl \<and> the_registry e fl = Some ftarget
            \<and> objs e ! e_node ftarget = Element ft fa fg fr (ftitle # frest)
            \<and> kids ftitle \<noteq> [] \<and> a_label fa \<noteq> None \<longrightarrow>
           (\<exists>resolved.
              resolve_spice_simulation_title ap e (objs e ! e_node target)
                (objs e ! e_node ftarget) = Inr resolved
              \<and> resolve_link_text ap e (Element t a g r (Element it ia ig ir ics # rest)) =
                  Inr (e\<lparr>objs := (objs e)[e_node target := resolved]\<rparr>,
                       Element t a g r
                         (Element it ia ig ir
                            [Text (composed_title_text ap (objs e ! e_node target)
                                     (objs e ! e_node ftarget))] # rest))))"
proof (intro conjI impI)
  assume tr
  with assms show "resolve_link_text ap e (Element t a g r (Element it ia ig ir ics # rest)) =
             Inr (e, Element t a g r (Element it ia ig ir [Text (astext title_node)] # rest))"
    by simp
next
  assume h: "\<not> tr \<and> is_a spice_simulation_title title_node \<and> a_title ta = Some entry
            \<and> a_target_label ta = Some fl \<and> the_registry e fl = Some ftarget
            \<and> objs e ! e_node ftarget = Element ft fa fg fr (ftitle # frest)
            \<and> kids ftitle \<noteq> [] \<and> a_label fa \<noteq> None"
  then have c: "is_a spice_simulation_title title_node" "a_title ta = Some entry"
      "kids ftitle \<noteq> []" "a_label fa \<noteq> None" by simp_all
  from resolve_simulation_composed [OF c, of ap e tg tr trest ft fg fr frest]
  obtain resolved u us where
    r: "resolve_spice_simulation_title ap e
            (Element spice_simulation_node ta tg tr (title_node # trest))
            (Element ft fa fg fr (ftitle # frest)) = Inr resolved"
    and k: "kids resolved = u # us"
    and t: "astext u = composed_title_text ap
                 (Element spice_simulation_node ta tg tr (title_node # trest))
                 (Element ft fa fg fr (ftitle # frest))"
    by blast
  have "resolve_link_text ap e (Element t a g r (Element it ia ig ir ics # rest)) =
                  Inr (e\<lparr>objs := (objs e)[e_node target := resolved]\<rparr>,
                       Element t a g r
                         (Element it ia ig ir
                            [Text (composed_title_text ap (objs e ! e_node target)
                                     (objs e ! e_node ftarget))] # rest))"
    using assms h r k t by simp
  with r assms(3) h
  show "\<exists>resolved.
              resolve_spice_simulation_title ap e (objs e ! e_node target)
                (objs e ! e_node ftarget) = Inr resolved
              \<and> resolve_link_text ap e (Element t a g r (Element it ia ig ir ics # rest)) =
                  Inr (e\<lparr>objs := (objs e)[e_node target := resolved]\<rparr>,
                       Element t a g r
                         (Element it ia ig ir
                            [Text (composed_title_text ap (objs e ! e_node target)
                                     (objs e ! e_node ftarget))] # rest))"
    by auto
qed

lemma labelled_fields [simp]:
  "opt_hidden (d_options (labelled l a)) = False" "d_arguments (labelled l a) = a"
  by (simp_all add: labelled_def no_options_def)

lemma env_f1_eq:
  "env_f1 = \<lparr>docname = ''doc'', serialno = 1,
      sphinx_spice_file_registry = Some [''f1'' \<mapsto> \<lparr>e_type = ''spice_file'', e_docname = ''doc'', e_node = 1\<rparr>],
      sphinx_spice_file_gated_registry = None, objs = [sample_file, sample_file], warnings = [],
      hide_spice_simulations = False\<rparr>"
proof -
  have n: "the_registry (new_env ''doc'')
      (directive_label ''spice_file'' (labelled ''f1'' []) (new_env ''doc'') (serialno (new_env ''doc''))) = None"
    by (rule new_env_registry)
  show ?thesis
    unfolding env_f1_def spice_fileDirective_run_def file_run_new [OF n]
    by (simp add: Let_def labelled_label sample_file_def new_env_def init_registry_def set_registry_def
        the_registry_def)
qed

lemma env_s1_eq:
  "env_s1 = \<lparr>docname = ''doc'', serialno = 2,
      sphinx_spice_file_registry = Some [''f1'' \<mapsto> \<lparr>e_type = ''spice_file'', e_docname = ''doc'', e_node = 1\<rparr>,
         ''s1'' \<mapsto> \<lparr>e_type = ''spice_simulation'', e_docname = ''doc'', e_node = 2\<rparr>],
      sphinx_spice_file_gated_registry = None,
      objs = [sample_file, sample_file, ghost_simulation], warnings = [],
      hide_spice_simulations = False\<rparr>"
proof -
  have n: "the_registry env_f1
      (directive_label ''spice_simulation'' (labelled ''s1'' [''ghost'']) env_f1 (serialno env_f1)) = None"
    by (simp add: labelled_label env_f1_eq the_registry_def)
  have a: "d_arguments (labelled ''s1'' [''ghost'']) = ''ghost'' # []" by (simp add: labelled_def)
  have h: "\<not> hide_spice_simulations env_f1" by (simp add: env_f1_eq)
  show ?thesis
    unfolding env_s1_def spice_simulationDirective_run_def simulation_run_new [OF n a h]
    by (simp add: Let_def labelled_label ghost_simulation_def second_simulation_def init_registry_def set_registry_def
        the_registry_def env_f1_eq eval_nat_numeral)
qed

lemma env_s2_eq:
  "env_s2 = \<lparr>docname = ''doc'', serialno = 3,
      sphinx_spice_file_registry = Some [''f1'' \<mapsto> \<lparr>e_type = ''spice_file'', e_docname = ''doc'', e_node = 1\<rparr>,
         ''s1'' \<mapsto> \<lparr>e_type = ''spice_simulation'', e_docname = ''doc'', e_node = 2\<rparr>,
         ''s2'' \<mapsto> \<lparr>e_type = ''spice_simulation'', e_docname = ''doc'', e_node = 3\<rparr>],
      sphinx_spice_file_gated_registry = None,
      objs = [sample_file, sample_file, ghost_simulation,
              second_simulation], warnings = [],
      hide_spice_simulations = False\<rparr>"
proof -
  have n: "the_registry env_s1
      (directive_label ''spice_simulation'' (labelled ''s2'' [''f1'']) env_s1 (serialno env_s1)) = None"
    by (simp add: labelled_label env_s1_eq the_registry_def)
  have a: "d_arguments (labelled ''s2'' [''f1'']) = ''f1'' # []" by (simp add: labelled_def)
  have h: "\<not> hide_spice_simulations env_s1" by (simp add: env_s1_eq)
  show ?thesis
    unfolding env_s2_def spice_simulationDirective_run_def simulation_run_new [OF n a h]
    by (simp add: Let_def labelled_label ghost_simulation_def second_simulation_def init_registry_def set_registry_def
        the_registry_def env_s1_eq eval_nat_numeral)
qed




lemma ghost_body:
  "resolve_simulation_node plain_app plain_host env_s2 (ghost_simulation) =
     (env_s2\<lparr>warnings := [(''undefined label: ghost'', ''doc'')]\<rparr>,
      ghost_simulation, True)"
proof -
  have t: "a_target_label (attributes (ghost_simulation)) = Some ''ghost''"
    by (simp add: ghost_simulation_def construct_spice_simulation_def Let_def)
  have r: "the_registry env_s2 ''ghost'' = None"
    by (simp add: env_s2_eq the_registry_def)
  have w: "warnings env_s2 = []" by (simp add: env_s2_eq)
  show ?thesis
    by (simp add: resolve_simulation_node_def Let_def t r warn_undefined_label_def plain_app_def doc_path w)
qed

lemma labelled_nonumber [simp]: "opt_nonumber (d_options (labelled l a)) = False"
  by (simp add: labelled_def no_options_def)

lemma labelled_more [simp]:
  "d_content (labelled l a) = []" "d_subtitle_nodes (labelled l a) = []"
  "option_classes (d_options (labelled l a)) = []"
  by (simp_all add: labelled_def no_options_def option_classes_def)

lemma walk_no_simulation:
  "\<not> occurs spice_simulation_node n \<Longrightarrow> walk_simulations ap h n st = (n, st)"
  "\<forall>c \<in> set cs. \<not> occurs spice_simulation_node c \<Longrightarrow>
     walk_simulations_list ap h cs st = (cs, st)"
proof (induction ap h n st and ap h cs st rule: walk_simulations_walk_simulations_list.induct)
  case (2 ap h t a g r cs e returned)
  then show ?case by auto
qed simp_all

lemma sample_file_no_simulation: "\<not> occurs spice_simulation_node sample_file"
  by (simp add: sample_file_def construct_spice_file_def Let_def new_element_def
      spice_file_title_node_def)

lemma walk_sample_file: "walk_simulations ap h sample_file st = (sample_file, st)"
  by (rule walk_no_simulation) (rule sample_file_no_simulation)

lemma ghost_shape:
  "ghost_simulation = Element spice_simulation_node (attributes ghost_simulation) False False
      (kids ghost_simulation)"
  by (simp add: ghost_simulation_def construct_spice_simulation_def Let_def)

lemma second_shape:
  "second_simulation = Element spice_simulation_node (attributes second_simulation) False False
      [Element spice_simulation_title no_attrs False False [Text ''spice_simulation to''],
       Element docutils_section (no_attrs\<lparr>a_ids := [''spice_simulation-content'']\<rparr>) False False []]"
  by (simp add: second_simulation_def construct_spice_simulation_def Let_def new_element_def labelled_def)

lemma walk_ghost:
  "walk_simulations plain_app plain_host ghost_simulation (env_s2, False) =
     (ghost_simulation, env_s2\<lparr>warnings := [(''undefined label: ghost'', ''doc'')]\<rparr>, True)"
  apply (subst ghost_shape)
  apply (simp only: walk_simulations.simps)
  apply (simp add: ghost_shape [symmetric] ghost_body)
  done

lemma walk_returned:
  "walk_simulations ap h n (e, True) = (n, e, True)"
  by (cases n) simp_all

lemma two_simulations_walk:
  "walk_simulations plain_app plain_host two_simulations_doc (env_s2, False) =
     (two_simulations_doc, env_s2\<lparr>warnings := [(''undefined label: ghost'', ''doc'')]\<rparr>, True)"
  by (simp add: two_simulations_doc_def walk_sample_file walk_ghost walk_returned)


lemma sample_file_shape:
  "sample_file = Element spice_file_enumerable_node (attributes sample_file) False False
     [Element spice_file_title no_attrs False False [Text ''spice_file''],
      Element docutils_section (no_attrs\<lparr>a_ids := [''spice_file-content'']\<rparr>) False False []]"
  by (simp add: sample_file_def construct_spice_file_def Let_def new_element_def
      spice_file_title_node_def)

lemma sample_attrs [simp]:
  "a_label (attributes sample_file) = Some ''f1''"
  "a_docname (attributes sample_file) = Some ''doc''"
  "a_title (attributes second_simulation) = Some ''spice_simulation to''"
  "a_label (attributes second_simulation) = Some ''s2''"
  "a_target_label (attributes second_simulation) = Some ''f1''"
  by (simp_all add: sample_file_def construct_spice_file_def second_simulation_def
      construct_spice_simulation_def Let_def new_element_def)

lemma resolve_second:
  "resolve_spice_simulation_title plain_app env_s2 second_simulation sample_file = Inr second_resolved"
  apply (subst second_shape, subst sample_file_shape)
  apply (simp add: Let_def plain_app_def env_s2_eq subtitle_part_def second_resolved_def)
  done

lemma second_body:
  "resolve_simulation_node plain_app plain_host env_s2 second_simulation =
     (set_registry ''s2''
        \<lparr>e_type = ''spice_simulation'', e_docname = ''doc'', e_node = length (objs env_s2)\<rparr>
        (env_s2\<lparr>objs := objs env_s2 @ [second_resolved]\<rparr>), second_resolved, False)"
proof -
  have r: "the_registry env_s2 ''f1'' = Some \<lparr>e_type = ''spice_file'', e_docname = ''doc'', e_node = 1\<rparr>"
     "the_registry env_s2 ''s2'' = Some \<lparr>e_type = ''spice_simulation'', e_docname = ''doc'', e_node = 3\<rparr>"
    by (simp_all add: env_s2_eq the_registry_def)
  have o: "objs env_s2 ! Suc 0 = sample_file" by (simp add: env_s2_eq)
  show ?thesis
    by (simp add: resolve_simulation_node_def Let_def r o resolve_second new_object_def)
qed

lemma walk_second:
  "\<exists>e'. walk_simulations plain_app plain_host second_simulation (env_s2, False) =
     (second_resolved, e', False)"
  apply (subst second_shape)
  apply (simp only: walk_simulations.simps)
  apply (simp add: second_shape [symmetric] second_body)
  apply (simp add: second_resolved_def walk_no_simulation)
  done

text \<open>
  Claim C5 at a document with two simulation blocks, the first with the undefined target
  \<open>ghost\<close>, the second with the registered target \<open>f1\<close>. The pass gives the one warning and
  leaves the first block as it is, but it also leaves the second block unresolved: the
  \<open>return\<close> in the \<open>except\<close> branch ends the pass. In the document with the second block
  alone the pass resolves its title.
\<close>

theorem undefined_target_stops_pass:
  "ResolveTitlesInspice_simulations_run plain_app plain_host env_s2 two_simulations_doc =
     (two_simulations_doc, env_s2\<lparr>warnings := [(''undefined label: ghost'', ''doc'')]\<rparr>)
   \<and> fst (ResolveTitlesInspice_simulations_run plain_app plain_host env_s2 second_only_doc) =
       Element docutils_document no_attrs False False [sample_file, second_resolved]"
proof -
  have reg: "\<exists>r. sphinx_spice_file_registry env_s2 = Some r" by (simp add: env_s2_eq)
  from walk_second obtain e' where
    w: "walk_simulations plain_app plain_host second_simulation (env_s2, False) =
     (second_resolved, e', False)" by blast
  have 2: "walk_simulations plain_app plain_host second_only_doc (env_s2, False) =
     (Element docutils_document no_attrs False False [sample_file, second_resolved], e', False)"
    by (simp add: second_only_doc_def walk_sample_file w)
  from reg two_simulations_walk 2 show ?thesis
    by (auto simp add: ResolveTitlesInspice_simulations_run_def)
qed

lemma env_s2_lookup:
  "the_registry env_s2 ''f1'' = Some \<lparr>e_type = ''spice_file'', e_docname = ''doc'', e_node = 1\<rparr>"
  "the_registry env_s2 ''s2'' = Some \<lparr>e_type = ''spice_simulation'', e_docname = ''doc'', e_node = 3\<rparr>"
  "objs env_s2 ! 1 = sample_file" "objs env_s2 ! 3 = second_simulation"
  "objs env_s2 ! Suc 0 = sample_file"
  by (simp_all add: env_s2_eq the_registry_def)

theorem explicit_reference_unchanged_witness:
  "the_registry env_s2 ''f1'' = Some \<lparr>e_type = ''spice_file'', e_docname = ''doc'', e_node = 1\<rparr>
   \<and> is_a spice_file_enumerable_node (objs env_s2 ! 1)
   \<and> update_reference env_s2 explicit_xref = Inr explicit_xref"
proof -
  have "is_a spice_file_enumerable_node (objs env_s2 ! 1)"
    by (subst env_s2_lookup, subst sample_file_shape) simp
  moreover have "update_reference env_s2 explicit_xref = Inr explicit_xref"
    unfolding explicit_xref_def
    by (rule explicit_reference_unchanged) (simp add: no_attrs_def)
  ultimately show ?thesis using env_s2_lookup(1) by blast
qed

text \<open>The same reference without explicit text is upgraded.\<close>

lemma implicit_reference_upgraded:
  "update_reference env_s2 implicit_xref = Inr (Element sphinx_pending_xref
     (no_attrs\<lparr>a_reftype := Some ''numref'', a_reftarget := Some ''f1'', a_refexplicit := Some False\<rparr>)
     False False
     [Element docutils_literal (no_attrs\<lparr>a_classes := [''xref'', ''std'', ''std-numref'']\<rparr>) False False
        [Text ''f1'']])"
proof -
  have "is_a spice_file_enumerable_node (objs env_s2 ! 1)"
    by (subst env_s2_lookup, subst sample_file_shape) simp
  then show ?thesis
    by (simp add: implicit_xref_def env_s2_lookup no_attrs_def)
qed

theorem title_resolution_idempotent_witness:
  "(\<exists>n'. resolve_title plain_app sample_file = Inr n' \<and> resolve_title plain_app n' = Inr n')
   \<and> resolve_spice_simulation_title plain_app env_s2 second_simulation sample_file
        = Inr second_resolved
   \<and> resolve_spice_simulation_title plain_app env_s2 second_resolved sample_file
        = Inr second_resolved"
proof -
  have "\<exists>n'. resolve_title plain_app sample_file = Inr n'"
    by (subst sample_file_shape) (simp add: Let_def new_element_def)
  then obtain n' where n: "resolve_title plain_app sample_file = Inr n'" by blast
  from title_resolution_idempotent [of plain_app sample_file n' env_s2 second_simulation
      sample_file second_resolved] n resolve_second
  show ?thesis by blast
qed

theorem link_text_composed_witness:
  "resolve_link_text plain_app env_s2 (link_to_s2 ''s2'') =
     Inr (env_s2\<lparr>objs := (objs env_s2)[3 := second_resolved]\<rparr>,
          link_to_s2 ''spice_simulation to spice_file 1'')
   \<and> resolve_link_text plain_app (env_s2\<lparr>objs := (objs env_s2)[3 := second_resolved]\<rparr>)
        (link_to_s2 ''s2'') =
     Inr (env_s2\<lparr>objs := (objs env_s2)[3 := second_resolved]\<rparr>,
          link_to_s2 ''spice_simulation to spice_file 1'')"
proof -
  let ?target = "\<lparr>e_type = ''spice_simulation'', e_docname = ''doc'', e_node = 3\<rparr>"
  let ?ftarget = "\<lparr>e_type = ''spice_file'', e_docname = ''doc'', e_node = 1\<rparr>"
  let ?e2 = "env_s2\<lparr>objs := (objs env_s2)[3 := second_resolved]\<rparr>"
  let ?stitle = "Element spice_simulation_title no_attrs False False [Text ''spice_simulation to'']"
  let ?ssection = "Element docutils_section (no_attrs\<lparr>a_ids := [''spice_simulation-content'']\<rparr>) False False []"
  let ?ftitle = "Element spice_file_title no_attrs False False [Text ''spice_file'']"
  let ?fsection = "Element docutils_section (no_attrs\<lparr>a_ids := [''spice_file-content'']\<rparr>) False False []"
  have a1: "a_refid (no_attrs\<lparr>a_refid := Some ''s2''\<rparr>) = Some ''s2''" by simp
  have a3: "objs env_s2 ! e_node ?target = Element spice_simulation_node (attributes second_simulation)
      False False (?stitle # [?ssection])"
    using second_shape by (simp add: env_s2_lookup)
  have f: "objs env_s2 ! e_node ?ftarget = Element spice_file_enumerable_node (attributes sample_file)
      False False (?ftitle # [?fsection])"
  proof -
    have "objs env_s2 ! e_node ?ftarget = sample_file" by (simp add: env_s2_eq)
    then show ?thesis using sample_file_shape by simp
  qed
  have c: "composed_title_text plain_app (objs env_s2 ! e_node ?target) (objs env_s2 ! e_node ?ftarget)
      = ''spice_simulation to spice_file 1''"
    unfolding a3 f by (simp add: composed_title_text_def subtitle_part_def plain_app_def)
  have r: "resolve_spice_simulation_title plain_app env_s2 (objs env_s2 ! e_node ?target)
      (objs env_s2 ! e_node ?ftarget) = Inr second_resolved"
    using resolve_second by (simp add: env_s2_lookup)
  from link_text_composed [OF a1 env_s2_lookup(2) a3, of plain_app docutils_reference False False
      docutils_inline no_attrs False False "[Text ''s2'']" "[]" "''spice_simulation to''" "''f1''"
      ?ftarget spice_file_enumerable_node "attributes sample_file" False False ?ftitle "[?fsection]"]
    f env_s2_lookup(1) r c
  have 1: "resolve_link_text plain_app env_s2 (link_to_s2 ''s2'') =
     Inr (?e2, link_to_s2 ''spice_simulation to spice_file 1'')"
    by (simp add: link_to_s2_def)
  have b2: "the_registry ?e2 ''s2'' = Some ?target" by (simp add: env_s2_lookup)
  have t: "astext (Element docutils_title no_attrs False False
        [Text ''spice_simulation to'',
         Element docutils_reference
           (no_attrs\<lparr>a_internal := Some True, a_refuri := Some ''doc.html#f1'',
                     a_anchorname := Some []\<rparr>) False False [Text '' spice_file 1'']])
      = ''spice_simulation to spice_file 1''" by simp
  have b3: "objs ?e2 ! e_node ?target = Element spice_simulation_node
     ((attributes second_simulation)\<lparr>a_title := Some ''spice_simulation to spice_file 1''\<rparr>)
     False True
     (Element docutils_title no_attrs False False
        [Text ''spice_simulation to'',
         Element docutils_reference
           (no_attrs\<lparr>a_internal := Some True, a_refuri := Some ''doc.html#f1'',
                     a_anchorname := Some []\<rparr>) False False [Text '' spice_file 1'']] # [?ssection])"
    by (simp add: env_s2_eq second_resolved_def)
  from link_text_composed [OF a1 b2 b3, of plain_app docutils_reference False False
      docutils_inline no_attrs False False "[Text ''s2'']" "[]"] t
  have 2: "resolve_link_text plain_app ?e2 (link_to_s2 ''s2'') =
     Inr (?e2, link_to_s2 ''spice_simulation to spice_file 1'')"
    by (simp add: link_to_s2_def)
  from 1 2 show ?thesis by simp
qed

section \<open>The merge passes\<close>

subsection \<open>One gated pair among its siblings\<close>

lemma first_index_hit_here:
  "\<forall>x \<in> set xs. \<not> P x \<Longrightarrow> P y \<Longrightarrow> first_index P (xs @ y # ys) = Some (length xs)"
  by (induction xs) auto

lemma walk_simulation_plain:
  "\<forall>c \<in> set todo. \<not> occurs spice_simulation_start_node c \<Longrightarrow>
     walk_simulation_starts done todo = done @ todo"
  "\<not> occurs spice_simulation_start_node n \<Longrightarrow> descend_simulation_starts n = n"
proof (induction "done" todo and n rule: walk_simulation_starts_descend_simulation_starts.induct)
  case (2 "done" c rest)
  from "2.prems" have c: "\<not> occurs spice_simulation_start_node c"
    and r: "\<forall>c \<in> set rest. \<not> occurs spice_simulation_start_node c" by simp_all
  from c have ns: "\<not> is_a spice_simulation_start_node c" by (cases c) auto
  from 2 ns c r show ?case by simp
next
  case (4 t a g r cs)
  then show ?case by auto
qed simp_all

lemma find_nodes_simulation_pair:
  assumes "\<forall>x \<in> set pre. \<not> is_a spice_simulation_start_node x"
    and "is_a spice_simulation_start_node s"
    and "\<forall>x \<in> set content. \<not> is_a spice_simulation_end_node x"
    and "is_a spice_simulation_end_node e"
  shows "find_nodes_simulation (get_label s) (pre @ s # content @ e # post)
         = (Some (length pre), Some (Suc (length pre + length content)))"
proof -
  let ?P = "\<lambda>child. is_a spice_simulation_start_node child \<and> get_label s = get_label child"
  have 1: "first_index ?P (pre @ s # content @ e # post) = Some (length pre)"
    using assms(1,2) by (intro first_index_hit_here) auto
  from assms(2,4) have ne: "\<not> is_a spice_simulation_end_node s" by (cases s) auto
  have "first_index (is_a spice_simulation_end_node) ((s # content) @ e # post)
        = Some (length (s # content))"
    using assms(3,4) ne by (intro first_index_hit_here) auto
  then have 2: "first_index (is_a spice_simulation_end_node) (s # content @ e # post)
        = Some (1 + length content)" by simp
  show ?thesis
    unfolding find_nodes_simulation_def 1 using 2 by simp
qed

lemma merge_simulation_at_pair:
  "merge_simulation_at (length pre) (length pre) (Suc (length pre + length content))
     (pre @ s # content @ e # post) = pre @ merged_simulation s content # post"
  by (simp add: merge_simulation_at_def Let_def slice_def nth_append list_update_append)

lemma walk_simulation_pair:
  assumes "\<forall>x \<in> set pre. \<not> is_a spice_simulation_start_node x"
    and "is_a spice_simulation_start_node s"
    and "\<forall>x \<in> set content. \<not> is_a spice_simulation_end_node x"
    and "is_a spice_simulation_end_node e"
  shows "walk_simulation_starts pre (s # content @ e # post)
         = walk_simulation_starts (pre @ [merged_simulation s content]) post"
proof -
  note f = find_nodes_simulation_pair [OF assms, of post]
  have "take (Suc (length pre)) (pre @ merged_simulation s content # post)
        = pre @ [merged_simulation s content]" by simp
  moreover have "drop (Suc (length pre)) (pre @ merged_simulation s content # post) = post"
    by simp
  ultimately show ?thesis
    using assms(2) f by (simp add: merge_simulation_at_pair Let_def)
qed

lemma replace_simulation_start [simp]:
  "replace ''spice_simulation-start'' ''spice_simulation'' ''spice_simulation-start'' = ''spice_simulation''"
  "replace ''spice_simulation-start'' ''spice_simulation'' ''spice_simulation'' = ''spice_simulation''"
  by (simp_all add: replace.simps starts_with_def)

lemma replace_file_start [simp]:
  "replace ''-start'' [] ''spice_file-start'' = ''spice_file''"
  "replace ''-start'' [] ''spice_file'' = ''spice_file''"
  by (simp_all add: replace.simps starts_with_def)

lemma no_attrs_lists [simp]:
  "a_classes no_attrs = []" "a_ids no_attrs = []" "a_names no_attrs = []"
  by (simp_all add: no_attrs_def)

lemma merged_simulation_is_single:
  "merged_simulation
     (construct_spice_simulation ''spice_simulation-start'' spice_simulation_start_node h d
        target doc serial label) content
   = map_classes (replace ''spice_simulation-start'' ''spice_simulation'')
       (construct_spice_simulation ''spice_simulation'' spice_simulation_node h
          (d\<lparr>d_content := content\<rparr>) target doc serial label)"
  by (simp add: merged_simulation_def construct_spice_simulation_def Let_def new_element_def)

lemma simulation_run_node:
  assumes "spice_simulation_run name cls h d e = Inr (e1, [a])"
  shows "\<exists>target ts. d_arguments d = target # ts \<and>
     objs e1 ! a = construct_spice_simulation name cls h d target (docname e) (serialno e)
                     (directive_label ''spice_simulation'' d e (serialno e))"
  using assms
  by (auto simp add: spice_simulation_run_def Let_def split_beta nth_append
      split: list.splits if_splits bool.splits)

lemma record_start_frame [simp]:
  "docname (record_start t n l e) = docname e"
  "serialno (record_start t n l e) = serialno e"
  "directive_label k d (record_start t n l e) m = directive_label k d e m"
  by (simp_all add: record_start_def Let_def set_gated_record_def directive_label_def)

lemma marker_free_no_start: "marker_free n \<Longrightarrow> \<not> occurs spice_simulation_start_node n"
  by (induction n) auto

lemma marker_free_top:
  "marker_free n \<Longrightarrow> \<not> is_a spice_simulation_start_node n \<and> \<not> is_a spice_simulation_end_node n
     \<and> \<not> is_a spice_file_end_node n"
  by (cases n) auto

lemma walk_simulation_prefix:
  "\<forall>c \<in> set pre. \<not> occurs spice_simulation_start_node c \<Longrightarrow>
   walk_simulation_starts done (pre @ rest) = walk_simulation_starts (done @ pre) rest"
proof (induction pre arbitrary: "done")
  case Nil
  show ?case by simp
next
  case (Cons c pre)
  from Cons.prems have c: "\<not> occurs spice_simulation_start_node c" by simp
  then have "\<not> is_a spice_simulation_start_node c" by (cases c) auto
  with c have "walk_simulation_starts done (c # pre @ rest)
      = walk_simulation_starts (done @ [c]) (pre @ rest)"
    by (simp add: walk_simulation_plain(2))
  also have "\<dots> = walk_simulation_starts ((done @ [c]) @ pre) rest"
    using Cons.prems by (intro Cons.IH) simp
  finally show ?case by simp
qed

lemma simulation_round_trip:
  assumes pre: "\<forall>x \<in> set pre. marker_free x" and post: "\<forall>x \<in> set post. marker_free x"
    and content: "\<forall>x \<in> set content. marker_free x"
    and start: "spice_simulationStartDirective_run h d e = Inr (e1, [a])"
    and single: "spice_simulationDirective_run h (d\<lparr>d_content := content\<rparr>) e = Inr (e2, [b])"
  shows "MergeGatedspice_simulations_apply
           (Element docutils_document da dg dr
              (pre @ objs e1 ! a # content @ new_element spice_simulation_end_node # post))
         = Inr (Element docutils_document da dg dr
                 (pre @ map_classes (replace ''spice_simulation-start'' ''spice_simulation'')
                          (objs e2 ! b) # post))"
proof -
  let ?e = "record_start ''spice_simulation'' ''spice_simulation-start'' (d_lineno d) e"
  from start have "spice_simulation_run ''spice_simulation-start'' spice_simulation_start_node h d ?e
      = Inr (e1, [a])" by (simp add: spice_simulationStartDirective_run_def)
  from simulation_run_node [OF this] obtain target ts where
    t: "d_arguments d = target # ts"
    and s: "objs e1 ! a = construct_spice_simulation ''spice_simulation-start''
              spice_simulation_start_node h d target (docname e) (serialno e)
              (directive_label ''spice_simulation'' d e (serialno e))" by auto
  from single have "spice_simulation_run ''spice_simulation'' spice_simulation_node h
      (d\<lparr>d_content := content\<rparr>) e = Inr (e2, [b])" by (simp add: spice_simulationDirective_run_def)
  from simulation_run_node [OF this] t have
    n: "objs e2 ! b = construct_spice_simulation ''spice_simulation'' spice_simulation_node h
              (d\<lparr>d_content := content\<rparr>) target (docname e) (serialno e)
              (directive_label ''spice_simulation'' d e (serialno e))"
    by (auto simp add: directive_label_def)
  let ?S = "objs e1 ! a"
  have is_start: "is_a spice_simulation_start_node ?S"
    unfolding s by (simp add: construct_spice_simulation_def Let_def)
  have is_end: "is_a spice_simulation_end_node (new_element spice_simulation_end_node)"
    by (simp add: new_element_def)
  have p1: "\<forall>x \<in> set pre. \<not> is_a spice_simulation_start_node x"
    using pre marker_free_top by blast
  have c1: "\<forall>x \<in> set content. \<not> is_a spice_simulation_end_node x"
    using content marker_free_top by blast
  have m: "merged_simulation ?S content
           = map_classes (replace ''spice_simulation-start'' ''spice_simulation'') (objs e2 ! b)"
    unfolding s n by (rule merged_simulation_is_single)
  have pre_plain: "\<forall>c \<in> set pre. \<not> occurs spice_simulation_start_node c"
    using pre marker_free_no_start by blast
  have post_plain: "\<forall>c \<in> set post. \<not> occurs spice_simulation_start_node c"
    using post marker_free_no_start by blast
  have "walk_simulation_starts [] (pre @ ?S # content @ new_element spice_simulation_end_node # post)
        = walk_simulation_starts pre (?S # content @ new_element spice_simulation_end_node # post)"
    using walk_simulation_prefix [OF pre_plain, of "[]"] by simp
  also have "\<dots> = walk_simulation_starts (pre @ [merged_simulation ?S content]) post"
    by (rule walk_simulation_pair [OF p1 is_start c1 is_end])
  also have "\<dots> = (pre @ [merged_simulation ?S content]) @ post"
    by (rule walk_simulation_plain(1) [OF post_plain])
  finally show ?thesis
    by (simp add: MergeGatedspice_simulations_apply_def m)
qed

lemma marker_free_ungated: "marker_free n \<Longrightarrow> ungated tg n"
  by (induction n) auto

lemma walk_gated_fixed:
  "\<forall>c \<in> set todo. descend_gated tg c = Inr c \<and> (is_a tg c \<longrightarrow> \<not> gated c) \<Longrightarrow>
   walk_gated tg done todo = Inr (done @ todo)"
proof (induction todo arbitrary: "done")
  case Nil
  show ?case by simp
next
  case (Cons c rest)
  from Cons.prems have c: "descend_gated tg c = Inr c" "is_a tg c \<longrightarrow> \<not> gated c"
    and r: "\<forall>c \<in> set rest. descend_gated tg c = Inr c \<and> (is_a tg c \<longrightarrow> \<not> gated c)"
    by simp_all
  have s: "is_a tg c \<Longrightarrow> set_gated False c = c" using c(2) by (cases c) auto
  from Cons.IH [OF r, of "done @ [c]"] c s show ?case
    by (simp add: nth_append)
qed

lemma descend_gated_ungated: "ungated tg n \<Longrightarrow> descend_gated tg n = Inr n"
proof (induction n)
  case (Text s)
  show ?case by simp
next
  case (Element t a g r cs)
  have "\<forall>c \<in> set cs. descend_gated tg c = Inr c \<and> (is_a tg c \<longrightarrow> \<not> gated c)"
  proof
    fix c assume c: "c \<in> set cs"
    with Element.prems have u: "ungated tg c" by simp
    from Element.IH [OF c u] have "descend_gated tg c = Inr c" .
    moreover from u have "is_a tg c \<longrightarrow> \<not> gated c" by (cases c) auto
    ultimately show "descend_gated tg c = Inr c \<and> (is_a tg c \<longrightarrow> \<not> gated c)" by simp
  qed
  from walk_gated_fixed [OF this, of "[]"] show ?case by simp
qed

lemma walk_gated_ungated:
  assumes "\<forall>c \<in> set todo. ungated tg c"
  shows "walk_gated tg done todo = Inr (done @ todo)"
proof (rule walk_gated_fixed, rule ballI)
  fix c assume "c \<in> set todo"
  with assms have u: "ungated tg c" by simp
  then have "is_a tg c \<longrightarrow> \<not> gated c" by (cases c) auto
  with descend_gated_ungated [OF u]
  show "descend_gated tg c = Inr c \<and> (is_a tg c \<longrightarrow> \<not> gated c)" by simp
qed

lemma walk_gated_prefix:
  "\<forall>c \<in> set pre. ungated tg c \<Longrightarrow>
   walk_gated tg done (pre @ rest) = walk_gated tg (done @ pre) rest"
proof (induction pre arbitrary: "done")
  case Nil
  show ?case by simp
next
  case (Cons c pre)
  from Cons.prems have u: "ungated tg c" by simp
  then have g: "is_a tg c \<longrightarrow> \<not> gated c" by (cases c) auto
  then have s: "is_a tg c \<Longrightarrow> set_gated False c = c" by (cases c) auto
  from descend_gated_ungated [OF u] g s
  have "walk_gated tg done (c # pre @ rest) = walk_gated tg (done @ [c]) (pre @ rest)"
    by (simp add: nth_append)
  also have "\<dots> = walk_gated tg ((done @ [c]) @ pre) rest"
    using Cons.prems by (intro Cons.IH) simp
  finally show ?case by simp
qed

lemma find_nodes_file_pair:
  assumes "\<forall>x \<in> set pre. \<not> ((is_a spice_file_node x \<or> is_a spice_file_enumerable_node x)
                               \<and> get_label s = get_label x)"
    and "is_a spice_file_node s \<or> is_a spice_file_enumerable_node s"
    and "\<forall>x \<in> set content. \<not> is_a spice_file_end_node x"
    and "is_a spice_file_end_node e"
  shows "find_nodes_file (get_label s) (pre @ s # content @ e # post)
         = (Some (length pre), Some (Suc (length pre + length content)))"
proof -
  let ?P = "\<lambda>child. (is_a spice_file_node child \<or> is_a spice_file_enumerable_node child)
                      \<and> get_label s = get_label child"
  have 1: "first_index ?P (pre @ s # content @ e # post) = Some (length pre)"
    using assms(1,2) by (intro first_index_hit_here) auto
  from assms(2,4) have ne: "\<not> is_a spice_file_end_node s" by (cases s) auto
  have "first_index (is_a spice_file_end_node) ((s # content) @ e # post)
        = Some (length (s # content))"
    using assms(3,4) ne by (intro first_index_hit_here) auto
  then have 2: "first_index (is_a spice_file_end_node) (s # content @ e # post)
        = Some (Suc (length content))" by simp
  show ?thesis
    unfolding find_nodes_file_def 1 using 2 by simp
qed

lemma merge_nodes_pair:
  assumes "\<forall>x \<in> set pre. \<not> ((is_a spice_file_node x \<or> is_a spice_file_enumerable_node x)
                               \<and> get_label s = get_label x)"
    and "is_a spice_file_node s \<or> is_a spice_file_enumerable_node s"
    and "\<forall>x \<in> set content. \<not> is_a spice_file_end_node x"
    and "is_a spice_file_end_node e"
    and "merged_file s content = Inr s1"
  shows "merge_nodes (length pre) (pre @ s # content @ e # post) = Inr (pre @ s1 # post)"
  using find_nodes_file_pair [OF assms(1-4), of post] assms(5)
  by (simp add: merge_nodes_def slice_def nth_append list_update_append)

lemma walk_gated_pair:
  assumes "\<forall>x \<in> set pre. \<not> ((is_a spice_file_node x \<or> is_a spice_file_enumerable_node x)
                               \<and> get_label s = get_label x)"
    and "is_a spice_file_node s \<or> is_a spice_file_enumerable_node s"
    and "\<forall>x \<in> set content. \<not> is_a spice_file_end_node x"
    and "is_a spice_file_end_node e"
    and "merged_file s content = Inr s1"
    and "is_a tg s" and "gated s" and "ungated tg (set_gated False s1)"
  shows "walk_gated tg pre (s # content @ e # post)
         = walk_gated tg (pre @ [set_gated False s1]) post"
  using assms(6,7) merge_nodes_pair [OF assms(1-5), of post]
    descend_gated_ungated [OF assms(8)]
  by (simp add: nth_append)

lemma merged_file_is_single:
  "map_sum id (set_gated False)
     (merged_file (construct_spice_file ''spice_file-start'' h d doc serial label) content)
   = Inr (map_classes (replace ''-start'' [])
       (construct_spice_file ''spice_file'' h (d\<lparr>d_content := d_content d @ content\<rparr>)
          doc serial label))"
  by (simp add: construct_spice_file_def Let_def new_element_def spice_file_title_node_def)

lemma file_run_node:
  assumes "spice_file_run name h d e = (e1, [a])"
  shows "objs e1 ! a = construct_spice_file name h d (docname e) (serialno e)
                         (directive_label ''spice_file'' d e (serialno e))"
  using assms
  by (auto simp add: spice_file_run_def Let_def split_beta nth_append
      split: if_splits bool.splits)

lemma constructed_file_shape:
  "\<exists>a. construct_spice_file name h d doc serial label =
     Element (if opt_nonumber (d_options d) then spice_file_node else spice_file_enumerable_node)
       a (name = ''spice_file-start'') False
       [spice_file_title_node d,
        Element docutils_section (no_attrs\<lparr>a_ids := [''spice_file-content'']\<rparr>) False False
          (d_content d)]
     \<and> a_label a = Some label"
  by (simp add: construct_spice_file_def Let_def new_element_def)

lemma title_node_content [simp]:
  "spice_file_title_node (d\<lparr>d_content := c\<rparr>) = spice_file_title_node d"
  by (simp add: spice_file_title_node_def Let_def)

lemma title_node_ungated:
  "\<forall>x \<in> set (d_subtitle_nodes d). marker_free x \<Longrightarrow> ungated tg (spice_file_title_node d)"
  by (auto simp add: spice_file_title_node_def Let_def new_element_def marker_free_ungated)

lemma file_round_trip:
  assumes pre: "\<forall>x \<in> set pre. marker_free x" and post: "\<forall>x \<in> set post. marker_free x"
    and content: "\<forall>x \<in> set content. marker_free x"
    and body: "\<forall>x \<in> set (d_content d). marker_free x"
    and subtitle: "\<forall>x \<in> set (d_subtitle_nodes d). marker_free x"
    and start: "spice_fileStartDirective_run h d e = (e1, [a])"
    and single: "spice_fileDirective_run h (d\<lparr>d_content := d_content d @ content\<rparr>) e = (e2, [b])"
    and labels: "\<forall>x \<in> set pre. get_label x \<noteq> get_label (objs e1 ! a)"
  shows "MergeGatedspice_files_apply
           (Element docutils_document da dg dr
              (pre @ objs e1 ! a # content @ new_element spice_file_end_node # post))
         = Inr (Element docutils_document da dg dr
                 (pre @ map_classes (replace ''-start'' []) (objs e2 ! b) # post))"
proof -
  let ?e = "record_start ''spice_file'' ''spice_file-start'' (d_lineno d) e"
  let ?label = "directive_label ''spice_file'' d e (serialno e)"
  let ?S = "construct_spice_file ''spice_file-start'' h d (docname e) (serialno e) ?label"
  let ?N = "map_classes (replace ''-start'' [])
       (construct_spice_file ''spice_file'' h (d\<lparr>d_content := d_content d @ content\<rparr>)
          (docname e) (serialno e) ?label)"
  let ?E = "new_element spice_file_end_node"
  let ?tag = "if opt_nonumber (d_options d) then spice_file_node else spice_file_enumerable_node"
  from start have "spice_file_run ''spice_file-start'' h d ?e = (e1, [a])"
    by (simp add: spice_fileStartDirective_run_def)
  from file_run_node [OF this] have s: "objs e1 ! a = ?S" by simp
  from single have "spice_file_run ''spice_file'' h (d\<lparr>d_content := d_content d @ content\<rparr>) e
      = (e2, [b])" by (simp add: spice_fileDirective_run_def)
  from file_run_node [OF this] have n: "map_classes (replace ''-start'' []) (objs e2 ! b) = ?N"
    by (simp add: directive_label_def)
  from constructed_file_shape [of "''spice_file-start''" h d "docname e" "serialno e" ?label]
  obtain sa where shape: "?S = Element ?tag sa True False
       [spice_file_title_node d,
        Element docutils_section (no_attrs\<lparr>a_ids := [''spice_file-content'']\<rparr>) False False
          (d_content d)]" and sl: "a_label sa = Some ?label" by auto
  from constructed_file_shape [of "''spice_file''" h "d\<lparr>d_content := d_content d @ content\<rparr>"
      "docname e" "serialno e" ?label]
  obtain na0 where "construct_spice_file ''spice_file'' h
      (d\<lparr>d_content := d_content d @ content\<rparr>) (docname e) (serialno e) ?label
      = Element ?tag na0 False False
       [spice_file_title_node d,
        Element docutils_section (no_attrs\<lparr>a_ids := [''spice_file-content'']\<rparr>) False False
          (d_content d @ content)]"
    by auto
  then have "\<exists>na. ?N = Element ?tag na False False
       [spice_file_title_node d,
        Element docutils_section (no_attrs\<lparr>a_ids := [''spice_file-content'']\<rparr>) False False
          (d_content d @ content)]" by simp
  then obtain na where nshape: "?N = Element ?tag na False False
       [spice_file_title_node d,
        Element docutils_section (no_attrs\<lparr>a_ids := [''spice_file-content'']\<rparr>) False False
          (d_content d @ content)]" by blast
  from merged_file_is_single [of h d "docname e" "serialno e" ?label content]
  obtain s1 where m: "merged_file ?S content = Inr s1" and g: "set_gated False s1 = ?N"
    by (cases "merged_file ?S content") auto
  have is_tag: "is_a ?tag ?S" "gated ?S" unfolding shape by simp_all
  have is_file: "is_a spice_file_node ?S \<or> is_a spice_file_enumerable_node ?S"
    unfolding shape by simp
  have is_end: "is_a spice_file_end_node ?E" by (simp add: new_element_def)
  have lab: "\<forall>x \<in> set pre. \<not> ((is_a spice_file_node x \<or> is_a spice_file_enumerable_node x)
                               \<and> get_label ?S = get_label x)"
    using labels s by auto
  have c1: "\<forall>x \<in> set content. \<not> is_a spice_file_end_node x"
    using content marker_free_top by blast
  have un_pre: "\<forall>c \<in> set pre. ungated tg c" for tg using pre marker_free_ungated by blast
  have un_post: "\<forall>c \<in> set post. ungated tg c" for tg using post marker_free_ungated by blast
  have un_content: "\<forall>c \<in> set content. ungated tg c" for tg
    using content marker_free_ungated by blast
  have un_N: "ungated tg ?N" for tg
    unfolding nshape using body content subtitle
    by (auto simp add: title_node_ungated marker_free_ungated)
  have un_E: "ungated tg ?E" for tg by (simp add: new_element_def)
  let ?cs = "pre @ ?S # content @ ?E # post"
  have merged: "walk_gated ?tag [] ?cs = Inr (pre @ ?N # post)"
  proof -
    have "walk_gated ?tag [] ?cs = walk_gated ?tag pre (?S # content @ ?E # post)"
      using walk_gated_prefix [OF un_pre, of ?tag "[]"] by simp
    also have "\<dots> = walk_gated ?tag (pre @ [set_gated False s1]) post"
      using un_N [of ?tag] g
      by (intro walk_gated_pair [OF lab is_file c1 is_end m is_tag]) simp
    also have "\<dots> = Inr ((pre @ [set_gated False s1]) @ post)"
      by (rule walk_gated_ungated [OF un_post])
    finally show ?thesis using g by simp
  qed
  have other: "walk_gated tg [] ?cs = Inr ?cs" if "tg \<noteq> ?tag" for tg
  proof -
    have "ungated tg ?S" unfolding shape using that body subtitle
      by (auto simp add: title_node_ungated marker_free_ungated)
    with un_pre un_post un_content un_E have "\<forall>c \<in> set ?cs. ungated tg c" by auto
    from walk_gated_ungated [OF this, of "[]"] show ?thesis by simp
  qed
  have after: "walk_gated tg [] (pre @ ?N # post) = Inr (pre @ ?N # post)" for tg
  proof -
    from un_pre un_post un_N have "\<forall>c \<in> set (pre @ ?N # post). ungated tg c" by auto
    from walk_gated_ungated [OF this, of "[]"] show ?thesis by simp
  qed
  show ?thesis
  proof (cases "opt_nonumber (d_options d)")
    case True
    with merged have 1: "walk_gated spice_file_node [] ?cs = Inr (pre @ ?N # post)" by simp
    show ?thesis
      unfolding s n
      by (simp add: MergeGatedspice_files_apply_def merge_gated_pass_def 1 after)
  next
    case False
    with merged have 2: "walk_gated spice_file_enumerable_node [] ?cs = Inr (pre @ ?N # post)"
      by simp
    from False other [of spice_file_node] have 1: "walk_gated spice_file_node [] ?cs = Inr ?cs"
      by simp
    show ?thesis
      unfolding s n
      by (simp add: MergeGatedspice_files_apply_def merge_gated_pass_def 1 2)
  qed
qed

text \<open>
  Claim C3. A document whose children are content without markers, one gated pair and more
  content without markers: the start node that the start directive returns, sibling
  content, the end node. The merge pass of the pair's kind returns the document in which
  the three are one node, and that node is the node which the single directive of the kind
  returns for the same directive with the sibling content as its content, with the start
  suffix cut out of its classes. (For a simulation block the content of the single
  directive is the sibling content alone; for a file block it is the start directive's own
  content followed by the sibling content. The file pass finds its node by the label, so
  no earlier sibling has the label of the pair.)
\<close>

theorem gated_pair_round_trip:
  assumes "\<forall>x \<in> set (pre @ content @ post). marker_free x"
  shows "(spice_simulationStartDirective_run h d e = Inr (e1, [a])
          \<and> spice_simulationDirective_run h (d\<lparr>d_content := content\<rparr>) e = Inr (e2, [b]) \<longrightarrow>
          MergeGatedspice_simulations_apply
            (Element docutils_document da dg dr
               (pre @ objs e1 ! a # content @ new_element spice_simulation_end_node # post))
          = Inr (Element docutils_document da dg dr
                  (pre @ map_classes (replace ''spice_simulation-start'' ''spice_simulation'')
                           (objs e2 ! b) # post)))
       \<and> (spice_fileStartDirective_run h d e = (f1, [fa])
          \<and> spice_fileDirective_run h (d\<lparr>d_content := d_content d @ content\<rparr>) e = (f2, [fb])
          \<and> (\<forall>x \<in> set (d_content d @ d_subtitle_nodes d). marker_free x)
          \<and> (\<forall>x \<in> set pre. get_label x \<noteq> get_label (objs f1 ! fa)) \<longrightarrow>
          MergeGatedspice_files_apply
            (Element docutils_document da dg dr
               (pre @ objs f1 ! fa # content @ new_element spice_file_end_node # post))
          = Inr (Element docutils_document da dg dr
                  (pre @ map_classes (replace ''-start'' []) (objs f2 ! fb) # post)))"
proof (intro conjI impI)
  assume "spice_simulationStartDirective_run h d e = Inr (e1, [a])
          \<and> spice_simulationDirective_run h (d\<lparr>d_content := content\<rparr>) e = Inr (e2, [b])"
  with assms show "MergeGatedspice_simulations_apply
            (Element docutils_document da dg dr
               (pre @ objs e1 ! a # content @ new_element spice_simulation_end_node # post))
          = Inr (Element docutils_document da dg dr
                  (pre @ map_classes (replace ''spice_simulation-start'' ''spice_simulation'')
                           (objs e2 ! b) # post))"
    by (intro simulation_round_trip) auto
next
  assume "spice_fileStartDirective_run h d e = (f1, [fa])
          \<and> spice_fileDirective_run h (d\<lparr>d_content := d_content d @ content\<rparr>) e = (f2, [fb])
          \<and> (\<forall>x \<in> set (d_content d @ d_subtitle_nodes d). marker_free x)
          \<and> (\<forall>x \<in> set pre. get_label x \<noteq> get_label (objs f1 ! fa))"
  with assms show "MergeGatedspice_files_apply
            (Element docutils_document da dg dr
               (pre @ objs f1 ! fa # content @ new_element spice_file_end_node # post))
          = Inr (Element docutils_document da dg dr
                  (pre @ map_classes (replace ''-start'' []) (objs f2 ! fb) # post))"
    by (intro file_round_trip) auto
qed

lemma simulation_run_returns_new:
  assumes "the_registry e (directive_label ''spice_simulation'' d e (serialno e)) = None"
    and "d_arguments d = t # ts" and "\<not> hide_spice_simulations e"
    and "\<not> opt_hidden (d_options d)"
  shows "spice_simulation_run name c h d e
         = Inr (fst (projr (spice_simulation_run name c h d e)), [length (objs e)])"
  unfolding simulation_run_new [OF assms(1-3)] using assms(4) by (simp add: Let_def)

lemma file_run_returns_new:
  assumes "the_registry e (directive_label ''spice_file'' d e (serialno e)) = None"
    and "\<not> opt_hidden (d_options d)"
  shows "spice_file_run name h d e = (fst (spice_file_run name h d e), [length (objs e)])"
  unfolding file_run_new [OF assms(1)] using assms(2) by (simp add: Let_def)

lemma record_start_store [simp]:
  "objs (record_start t n l e) = objs e"
  "the_registry (record_start t n l e) = the_registry e"
  "hide_spice_simulations (record_start t n l e) = hide_spice_simulations e"
  by (simp_all add: record_start_def Let_def set_gated_record_def the_registry_def)

lemma new_env_fields [simp]:
  "objs (new_env doc) = []" "\<not> hide_spice_simulations (new_env doc)"
  by (simp_all add: new_env_def)

lemma labelled_content [simp]:
  "d_arguments (labelled l a) = a"
  "d_content (labelled l a) = []" "d_subtitle_nodes (labelled l a) = []"
  "d_options (labelled l a\<lparr>d_content := c\<rparr>) = d_options (labelled l a)"
  "d_arguments (labelled l a\<lparr>d_content := c\<rparr>) = a"
  by (simp_all add: labelled_def)

lemma directive_label_content [simp]:
  "directive_label k (d\<lparr>d_content := c\<rparr>) e n = directive_label k d e n"
  by (simp add: directive_label_def)

lemma sample_paragraph_free [simp]: "marker_free (sample_paragraph s)"
  by (simp add: sample_paragraph_def)

lemma sample_paragraph_label [simp]: "get_label (sample_paragraph s) = None"
  by (simp add: sample_paragraph_def no_attrs_def)

lemma constructed_file_label [simp]:
  "get_label (construct_spice_file name h d doc serial label) = Some label"
  using constructed_file_shape [of name h d doc serial label] by auto

theorem gated_pair_round_trip_witness:
  "MergeGatedspice_simulations_apply
     (Element docutils_document no_attrs False False
        ([sample_paragraph ''a''] @
         objs (fst (projr (spice_simulationStartDirective_run plain_host
                             (labelled ''g1'' [''f1'']) (new_env ''doc'')))) ! 0
         # [sample_paragraph ''b''] @ new_element spice_simulation_end_node
         # [sample_paragraph ''c'']))
   = Inr (Element docutils_document no_attrs False False
            ([sample_paragraph ''a''] @
             map_classes (replace ''spice_simulation-start'' ''spice_simulation'')
               (objs (fst (projr (spice_simulationDirective_run plain_host
                         (labelled ''g1'' [''f1'']\<lparr>d_content := [sample_paragraph ''b'']\<rparr>)
                         (new_env ''doc'')))) ! 0)
             # [sample_paragraph ''c'']))
   \<and> MergeGatedspice_files_apply
     (Element docutils_document no_attrs False False
        ([sample_paragraph ''a''] @
         objs (fst (spice_fileStartDirective_run plain_host
                             (labelled ''g1'' [''f1'']) (new_env ''doc''))) ! 0
         # [sample_paragraph ''b''] @ new_element spice_file_end_node
         # [sample_paragraph ''c'']))
   = Inr (Element docutils_document no_attrs False False
            ([sample_paragraph ''a''] @
             map_classes (replace ''-start'' [])
               (objs (fst (spice_fileDirective_run plain_host
                         (labelled ''g1'' [''f1'']\<lparr>d_content :=
                            d_content (labelled ''g1'' [''f1'']) @ [sample_paragraph ''b'']\<rparr>)
                         (new_env ''doc''))) ! 0)
             # [sample_paragraph ''c'']))"
proof -
  let ?d = "labelled ''g1'' [''f1'']"
  let ?e = "new_env ''doc''"
  let ?b = "[sample_paragraph ''b'']"
  have o: "\<not> opt_hidden (d_options ?d)" by (simp add: labelled_def no_options_def)
  have s1: "spice_simulationStartDirective_run plain_host ?d ?e
      = Inr (fst (projr (spice_simulationStartDirective_run plain_host ?d ?e)), [0])"
    unfolding spice_simulationStartDirective_run_def
    using simulation_run_returns_new [of
        "record_start ''spice_simulation'' ''spice_simulation-start'' (d_lineno ?d) ?e"
        ?d "''f1''" "[]" "''spice_simulation-start''" spice_simulation_start_node plain_host] o
    by (simp add: new_env_registry)
  have s2: "spice_simulationDirective_run plain_host (?d\<lparr>d_content := ?b\<rparr>) ?e
      = Inr (fst (projr (spice_simulationDirective_run plain_host (?d\<lparr>d_content := ?b\<rparr>) ?e)),
             [0])"
    unfolding spice_simulationDirective_run_def
    using simulation_run_returns_new [of ?e "?d\<lparr>d_content := ?b\<rparr>" "''f1''" "[]"
        "''spice_simulation''" spice_simulation_node plain_host] o
    by (simp add: new_env_registry)
  have f1: "spice_fileStartDirective_run plain_host ?d ?e
      = (fst (spice_fileStartDirective_run plain_host ?d ?e), [0])"
    unfolding spice_fileStartDirective_run_def
    using file_run_returns_new [of
        "record_start ''spice_file'' ''spice_file-start'' (d_lineno ?d) ?e"
        ?d "''spice_file-start''" plain_host] o
    by (simp add: new_env_registry)
  have f2: "spice_fileDirective_run plain_host (?d\<lparr>d_content := d_content ?d @ ?b\<rparr>) ?e
      = (fst (spice_fileDirective_run plain_host (?d\<lparr>d_content := d_content ?d @ ?b\<rparr>) ?e),
         [0])"
    unfolding spice_fileDirective_run_def
    using file_run_returns_new [of ?e "?d\<lparr>d_content := d_content ?d @ ?b\<rparr>"
        "''spice_file''" plain_host] o
    by (simp add: new_env_registry)
  have free: "\<forall>x \<in> set ([sample_paragraph ''a''] @ ?b @ [sample_paragraph ''c'']). marker_free x"
    by simp
  have body: "\<forall>x \<in> set (d_content ?d @ d_subtitle_nodes ?d). marker_free x" by simp
  have "objs (fst (spice_fileStartDirective_run plain_host ?d ?e)) ! 0
        = construct_spice_file ''spice_file-start'' plain_host ?d (docname ?e) (serialno ?e)
            (directive_label ''spice_file'' ?d ?e (serialno ?e))"
    using file_run_node [of "''spice_file-start''" plain_host ?d
        "record_start ''spice_file'' ''spice_file-start'' (d_lineno ?d) ?e" _ 0] f1
    by (simp add: spice_fileStartDirective_run_def)
  then have labels: "\<forall>x \<in> set [sample_paragraph ''a''].
      get_label x \<noteq> get_label (objs (fst (spice_fileStartDirective_run plain_host ?d ?e)) ! 0)"
    by simp
  from gated_pair_round_trip [OF free, of plain_host ?d ?e _ 0 _ 0 no_attrs False False _ 0 _ 0]
    s1 s2 f1 f2 body labels
  show ?thesis by blast
qed

end
